theory Spec2Isabelle
  imports Main
begin

section \<open>The object store of starbox/celestial.py\<close>

text \<open>
  The celestial classes of \<^verbatim>\<open>starbox/celestial.py\<close> are Python objects that point at
  one another: a child holds its \<^verbatim>\<open>parent\<close>, a container holds its children in
  \<^verbatim>\<open>orbitals\<close> (or \<^verbatim>\<open>heads\<close> and \<^verbatim>\<open>bodies\<close>), and \<^verbatim>\<open>subAssign\<close> mutates both
  sides. The model keeps every object in one store, a list of objects; a reference is the
  position of an object in the store, and a constructor appends the new object.

  An attribute of a Python object may be missing (reading it raises
  \<^verbatim>\<open>AttributeError\<close>), so the attributes that the hierarchy code reads are optional
  fields: \<open>None\<close> is "no such attribute". The class of an object decides which methods
  and which class attribute \<^verbatim>\<open>bodyType\<close> it has. The attributes that no method of the
  hierarchy code reads (mass, ruler, positions, satellites, ...) are left out.
\<close>

type_synonym ref = nat

datatype val = PyNone | Ref ref

datatype cls =
    Body | Planet | GiantPlanet | DwarfPlanet
  | Star | BlackHole
  | System
  | Belt
  | Minor

record obj =
  cls_of :: cls
  name :: string
  parent :: "val option"
  bodyRank :: "int option"
  orbitals :: "ref list option"
  heads :: "ref list option"
  bodies :: "ref list option"
  bodySubtype :: "string option"

type_synonym heap = "obj list"

text \<open>
  A reference beyond the end of the store does not arise in Python. The model reads it
  as an object with no attribute and no method at all.
\<close>

definition lookup :: "heap \<Rightarrow> ref \<Rightarrow> obj option" where
  "lookup h r = (if r < length h then Some (h ! r) else None)"

text \<open>The class attribute \<^verbatim>\<open>bodyType\<close>; \<^verbatim>\<open>Body\<close> and \<^verbatim>\<open>Minor\<close> define none.\<close>

fun bodyType :: "cls \<Rightarrow> string option" where
  "bodyType Planet = Some ''Planet''"
| "bodyType GiantPlanet = Some ''Planet''"
| "bodyType DwarfPlanet = Some ''Planet''"
| "bodyType Star = Some ''Star''"
| "bodyType BlackHole = Some ''Star''"
| "bodyType System = Some ''System''"
| "bodyType Belt = Some ''Belt''"
| "bodyType Body = None"
| "bodyType Minor = None"

text \<open>
  The only exception that the hierarchy code raises and catches. Python's recursion
  limit is not modelled: a call that would recurse for ever has no result.
\<close>

datatype status = Done | AttributeError

section \<open>system()\<close>

text \<open>
  \<^verbatim>\<open>System.system\<close> returns \<^verbatim>\<open>self\<close>. \<^verbatim>\<open>Body.system\<close>, \<^verbatim>\<open>Star.system\<close>,
  \<^verbatim>\<open>Belt.system\<close> and \<^verbatim>\<open>Minor.system\<close> are the same four lines:
  \<^verbatim>\<open>try: return self.parent.system()  except AttributeError: return None\<close>.
  A missing \<^verbatim>\<open>parent\<close> attribute and a \<^verbatim>\<open>parent\<close> that is \<^verbatim>\<open>None\<close> raise inside the
  \<^verbatim>\<open>try\<close>, as does a call on a reference that holds no object (first case), so the
  caller returns \<^verbatim>\<open>None\<close>. The method is a state transformer like every other method:
  it returns its value together with the store it leaves. No result (\<open>None\<close> of the
  outer option) means that the walk up the parents never ends.
\<close>

partial_function (option) system :: "heap \<Rightarrow> ref \<Rightarrow> (val \<times> heap) option" where
  "system h self =
     (case lookup h self of
        None \<Rightarrow> Some (PyNone, h)
      | Some ob \<Rightarrow>
          if cls_of ob = System then Some (Ref self, h)
          else (case parent ob of
                  None \<Rightarrow> Some (PyNone, h)
                | Some PyNone \<Rightarrow> Some (PyNone, h)
                | Some (Ref p) \<Rightarrow> system h p))"

section \<open>subAssign\<close>

text \<open>
  \<^verbatim>\<open>System.subAssign\<close>: the child goes to \<^verbatim>\<open>bodies\<close> when its rank is greater than the
  System's, to \<^verbatim>\<open>heads\<close> when the ranks are equal, and nowhere otherwise. Every
  \<^verbatim>\<open>AttributeError\<close> (the child or the System has no \<^verbatim>\<open>bodyRank\<close>, the list is missing)
  is passed over, so the method always returns.
\<close>

definition System_subAssign :: "heap \<Rightarrow> ref \<Rightarrow> ref \<Rightarrow> heap" where
  "System_subAssign h self childNew =
     (case lookup h self of
        None \<Rightarrow> h
      | Some ob \<Rightarrow>
         (case Option.bind (lookup h childNew) bodyRank of
            None \<Rightarrow> h
          | Some rc \<Rightarrow>
             (case bodyRank ob of
                None \<Rightarrow> h
              | Some rs \<Rightarrow>
                  if rc > rs then
                    (case bodies ob of
                       None \<Rightarrow> h
                     | Some bs \<Rightarrow> h[self := ob\<lparr>bodies := Some (bs @ [childNew])\<rparr>])
                  else if rc = rs then
                    (case heads ob of
                       None \<Rightarrow> h
                     | Some hs \<Rightarrow> h[self := ob\<lparr>heads := Some (hs @ [childNew])\<rparr>])
                  else h)))"

text \<open>
  \<^verbatim>\<open>Body.subAssign\<close>, \<^verbatim>\<open>Star.subAssign\<close> and \<^verbatim>\<open>Belt.subAssign\<close> start with the same
  three statements:
  \<^verbatim>\<open>self.orbitals.append(childNew); childNew.parent = self;
  childNew.bodyRank = self.bodyRank + 1\<close>.
  \<open>adopt\<close> runs them in this order and stops at the first \<^verbatim>\<open>AttributeError\<close>, keeping
  what the statements before it have written.
\<close>

definition adopt :: "heap \<Rightarrow> ref \<Rightarrow> ref \<Rightarrow> status \<times> heap" where
  "adopt h self childNew =
     (case Option.bind (lookup h self) orbitals of
        None \<Rightarrow> (AttributeError, h)
      | Some os \<Rightarrow>
          let h1 = h[self := (h ! self)\<lparr>orbitals := Some (os @ [childNew])\<rparr>] in
          if \<not> childNew < length h1 then (AttributeError, h1)
          else
            let h2 = h1[childNew := (h1 ! childNew)\<lparr>parent := Some (Ref self)\<rparr>] in
            (case bodyRank (h2 ! self) of
               None \<Rightarrow> (AttributeError, h2)
             | Some rk \<Rightarrow>
                 (Done, h2[childNew := (h2 ! childNew)\<lparr>bodyRank := Some (rk + 1)\<rparr>])))"

text \<open>
  The method that \<^verbatim>\<open>self.subAssign(childNew)\<close> runs is chosen by the class of
  \<^verbatim>\<open>self\<close>. Each method catches \<^verbatim>\<open>AttributeError\<close> around its whole body and then
  returns, so a call returns the store as it stands at that point.

  \<^item> \<^verbatim>\<open>System\<close>: \<open>System_subAssign\<close>.
  \<^item> \<^verbatim>\<open>Star\<close>, \<^verbatim>\<open>BlackHole\<close> and \<^verbatim>\<open>Belt\<close>: the three statements of \<open>adopt\<close>, then
    \<^verbatim>\<open>if self.parent.bodyType == "System": self.parent.subAssign(childNew)\<close>.
  \<^item> \<^verbatim>\<open>Body\<close> and the planets: the three statements of \<open>adopt\<close>, then
    \<^verbatim>\<open>if self.system() != None: self.system().subAssign(childNew)\<close>.
  \<^item> \<^verbatim>\<open>Minor\<close>: the first statement is \<^verbatim>\<open>self.append(childNew)\<close>, and no Minor has an
    \<^verbatim>\<open>append\<close>, so the method returns at once.
  \<^item> a reference that holds no object: the call raises in the caller, who catches it.
\<close>

partial_function (option) subAssign :: "heap \<Rightarrow> ref \<Rightarrow> ref \<Rightarrow> heap option" where
  "subAssign h self childNew =
     (case lookup h self of
        None \<Rightarrow> Some h
      | Some ob \<Rightarrow>
          if cls_of ob = System then Some (System_subAssign h self childNew)
          else if cls_of ob = Minor then Some h
          else if cls_of ob \<in> {Star, BlackHole, Belt} then
            (case adopt h self childNew of
               (AttributeError, h3) \<Rightarrow> Some h3
             | (Done, h3) \<Rightarrow>
                 (case Option.bind (lookup h3 self) parent of
                    None \<Rightarrow> Some h3
                  | Some PyNone \<Rightarrow> Some h3
                  | Some (Ref p) \<Rightarrow>
                      (case Option.bind (lookup h3 p) (\<lambda>pob. bodyType (cls_of pob)) of
                         None \<Rightarrow> Some h3
                       | Some t \<Rightarrow>
                           if t = ''System'' then subAssign h3 p childNew else Some h3)))
          else
            (case adopt h self childNew of
               (AttributeError, h3) \<Rightarrow> Some h3
             | (Done, h3) \<Rightarrow>
                 Option.bind (system h3 self) (\<lambda>(v, h4).
                   if v \<noteq> PyNone then
                     Option.bind (system h4 self) (\<lambda>(v', h5).
                       case v' of
                         PyNone \<Rightarrow> Some h5
                       | Ref s \<Rightarrow> subAssign h5 s childNew)
                   else Some h4)))"

section \<open>Constructors\<close>

text \<open>
  Every constructor ends with
  \<^verbatim>\<open>try: self.parent.subAssign(self)  except AttributeError: pass\<close>.
  The call raises when \<^verbatim>\<open>parent\<close> is \<^verbatim>\<open>None\<close>; then nothing happens.
\<close>

definition assign_to_parent :: "heap \<Rightarrow> ref \<Rightarrow> heap option" where
  "assign_to_parent h self =
     (case Option.bind (lookup h self) parent of
        None \<Rightarrow> Some h
      | Some PyNone \<Rightarrow> Some h
      | Some (Ref p) \<Rightarrow> subAssign h p self)"

text \<open>
  A constructor creates the object at the end of the store, with the attributes that
  \<^verbatim>\<open>__init__\<close> has set when it reaches the call of \<^verbatim>\<open>subAssign\<close>, and returns the new
  reference with the store. The subclasses (\<^verbatim>\<open>BlackHole\<close>, \<^verbatim>\<open>GiantPlanet\<close>,
  \<^verbatim>\<open>DwarfPlanet\<close>) inherit \<^verbatim>\<open>__init__\<close>, so \<open>Star_init\<close> and \<open>Planet_init\<close> take the
  class that is instantiated.

  \<^verbatim>\<open>Body.__init__\<close> sets \<^verbatim>\<open>orbitals\<close> and neither \<^verbatim>\<open>parent\<close> nor \<^verbatim>\<open>bodyRank\<close>, and calls
  no \<^verbatim>\<open>subAssign\<close>.
\<close>

definition Body_init :: "string \<Rightarrow> heap \<Rightarrow> ref \<times> heap" where
  "Body_init nm h =
     (length h,
      h @ [\<lparr>cls_of = Body, name = nm, parent = None, bodyRank = None,
            orbitals = Some [], heads = None, bodies = None, bodySubtype = None\<rparr>])"

definition Planet_init :: "cls \<Rightarrow> string \<Rightarrow> val \<Rightarrow> heap \<Rightarrow> (ref \<times> heap) option" where
  "Planet_init k nm par h =
     (let self = length h;
          h0 = h @ [\<lparr>cls_of = k, name = nm, parent = Some par, bodyRank = Some 3,
                     orbitals = Some [], heads = None, bodies = None, bodySubtype = None\<rparr>]
      in map_option (Pair self) (assign_to_parent h0 self))"

definition Star_init :: "cls \<Rightarrow> string \<Rightarrow> val \<Rightarrow> heap \<Rightarrow> (ref \<times> heap) option" where
  "Star_init k nm par h =
     (let self = length h;
          h0 = h @ [\<lparr>cls_of = k, name = nm, parent = Some par, bodyRank = Some 2,
                     orbitals = Some [], heads = None, bodies = None, bodySubtype = None\<rparr>]
      in map_option (Pair self) (assign_to_parent h0 self))"

definition System_init :: "string \<Rightarrow> val \<Rightarrow> int \<Rightarrow> heap \<Rightarrow> (ref \<times> heap) option" where
  "System_init nm par rank h =
     (let self = length h;
          h0 = h @ [\<lparr>cls_of = System, name = nm, parent = Some par, bodyRank = Some rank,
                     orbitals = None, heads = Some [], bodies = Some [], bodySubtype = None\<rparr>]
      in map_option (Pair self) (assign_to_parent h0 self))"

definition Minor_init :: "string \<Rightarrow> val \<Rightarrow> heap \<Rightarrow> (ref \<times> heap) option" where
  "Minor_init nm par h =
     (let self = length h;
          h0 = h @ [\<lparr>cls_of = Minor, name = nm, parent = Some par, bodyRank = Some 4,
                     orbitals = None, heads = None, bodies = None, bodySubtype = None\<rparr>]
      in map_option (Pair self) (assign_to_parent h0 self))"

text \<open>
  \<^verbatim>\<open>Belt.__init__\<close> goes on after the \<^verbatim>\<open>try\<close>: it reads \<^verbatim>\<open>self.parent.bodyType\<close>, outside
  any handler, to choose \<^verbatim>\<open>bodySubtype\<close>. So it is the one constructor whose result
  has a status.
\<close>

definition Belt_init :: "string \<Rightarrow> val \<Rightarrow> int \<Rightarrow> heap \<Rightarrow> (status \<times> ref \<times> heap) option" where
  "Belt_init nm par rank h =
     (let self = length h;
          h0 = h @ [\<lparr>cls_of = Belt, name = nm, parent = Some par, bodyRank = Some rank,
                     orbitals = Some [], heads = None, bodies = None, bodySubtype = None\<rparr>]
      in Option.bind (assign_to_parent h0 self) (\<lambda>h1.
           Some (case Option.bind (lookup h1 self) parent of
                   None \<Rightarrow> (AttributeError, self, h1)
                 | Some PyNone \<Rightarrow> (AttributeError, self, h1)
                 | Some (Ref p) \<Rightarrow>
                     (case Option.bind (lookup h1 p) (\<lambda>pob. bodyType (cls_of pob)) of
                        None \<Rightarrow> (AttributeError, self, h1)
                      | Some t \<Rightarrow>
                          (Done, self,
                           h1[self := (h1 ! self)\<lparr>bodySubtype :=
                                Some (if t = ''Star'' then ''Belt''
                                      else if t = ''Planet'' then ''Ring''
                                      else ''Cloud'')\<rparr>])))))"

section \<open>Ancestors\<close>

text \<open>
  \<open>parent_chain h r ps t\<close>: the \<^verbatim>\<open>parent\<close> links lead from \<open>r\<close> through the nodes \<open>ps\<close>
  to \<open>t\<close> (the last of \<open>ps\<close>, or \<open>r\<close> itself when \<open>ps\<close> is empty), and no node before
  \<open>t\<close> is a System. It names the ancestors that \<^verbatim>\<open>system()\<close> walks through.
\<close>

fun parent_chain :: "heap \<Rightarrow> ref \<Rightarrow> ref list \<Rightarrow> ref \<Rightarrow> bool" where
  "parent_chain h r [] t = (r = t)"
| "parent_chain h r (p # ps) t =
     (case lookup h r of
        None \<Rightarrow> False
      | Some ob \<Rightarrow> cls_of ob \<noteq> System \<and> parent ob = Some (Ref p) \<and> parent_chain h p ps t)"

definition is_System :: "heap \<Rightarrow> ref \<Rightarrow> bool" where
  "is_System h r = (case lookup h r of None \<Rightarrow> False | Some ob \<Rightarrow> cls_of ob = System)"

section \<open>Example stores\<close>

text \<open>
  \<open>solar\<close> is the store after
  \<^verbatim>\<open>sol = System("Sol"); sun = Star("Sun", sol); earth = Planet("Earth", sun);
  luna = DwarfPlanet("Luna", earth); rogue = Planet("Rogue"); rock = Minor("Rock", rogue)\<close>
  (lemma \<open>solar_built\<close>).
\<close>

definition solar :: heap where
  "solar =
     [\<lparr>cls_of = System, name = ''Sol'', parent = Some PyNone, bodyRank = Some 2,
        orbitals = None, heads = Some [1], bodies = Some [2, 3], bodySubtype = None\<rparr>,
      \<lparr>cls_of = Star, name = ''Sun'', parent = Some (Ref 0), bodyRank = Some 2,
        orbitals = Some [2], heads = None, bodies = None, bodySubtype = None\<rparr>,
      \<lparr>cls_of = Planet, name = ''Earth'', parent = Some (Ref 1), bodyRank = Some 3,
        orbitals = Some [3], heads = None, bodies = None, bodySubtype = None\<rparr>,
      \<lparr>cls_of = DwarfPlanet, name = ''Luna'', parent = Some (Ref 2), bodyRank = Some 4,
        orbitals = Some [], heads = None, bodies = None, bodySubtype = None\<rparr>,
      \<lparr>cls_of = Planet, name = ''Rogue'', parent = Some PyNone, bodyRank = Some 3,
        orbitals = Some [5], heads = None, bodies = None, bodySubtype = None\<rparr>,
      \<lparr>cls_of = Minor, name = ''Rock'', parent = Some (Ref 4), bodyRank = Some 4,
        orbitals = None, heads = None, bodies = None, bodySubtype = None\<rparr>]"

text \<open>
  \<open>hub\<close> is the store after
  \<^verbatim>\<open>hub = System("Hub", rank=3); nova = Star("Nova", hub)\<close>: the Star has rank 2,
  below the System's 3, so the System has taken it into neither list
  (lemma \<open>hub_built\<close>).
\<close>

definition hub :: heap where
  "hub =
     [\<lparr>cls_of = System, name = ''Hub'', parent = Some PyNone, bodyRank = Some 3,
        orbitals = None, heads = Some [], bodies = Some [], bodySubtype = None\<rparr>,
      \<lparr>cls_of = Star, name = ''Nova'', parent = Some (Ref 0), bodyRank = Some 2,
        orbitals = Some [], heads = None, bodies = None, bodySubtype = None\<rparr>]"

text \<open>
  \<open>belted\<close> is the store after
  \<^verbatim>\<open>sol = System("Sol"); belt = Belt("Main Belt", sol)\<close> (lemma \<open>belted_built\<close>).
\<close>

definition belted :: heap where
  "belted =
     [\<lparr>cls_of = System, name = ''Sol'', parent = Some PyNone, bodyRank = Some 2,
        orbitals = None, heads = Some [], bodies = Some [1], bodySubtype = None\<rparr>,
      \<lparr>cls_of = Belt, name = ''Main Belt'', parent = Some (Ref 0), bodyRank = Some 3,
        orbitals = Some [], heads = None, bodies = None, bodySubtype = Some ''Cloud''\<rparr>]"

text \<open>
  \<open>ringed\<close> is the store after
  \<^verbatim>\<open>sol = System("Sol"); sun = Star("Sun", sol); belt = Belt("Main Belt", sun)\<close>
  (lemma \<open>ringed_built\<close>): the Belt's parent is the Star, and the System is one level
  further up.
\<close>

definition ringed :: heap where
  "ringed =
     [\<lparr>cls_of = System, name = ''Sol'', parent = Some PyNone, bodyRank = Some 2,
        orbitals = None, heads = Some [1], bodies = Some [2], bodySubtype = None\<rparr>,
      \<lparr>cls_of = Star, name = ''Sun'', parent = Some (Ref 0), bodyRank = Some 2,
        orbitals = Some [2], heads = None, bodies = None, bodySubtype = None\<rparr>,
      \<lparr>cls_of = Belt, name = ''Main Belt'', parent = Some (Ref 1), bodyRank = Some 3,
        orbitals = Some [], heads = None, bodies = None, bodySubtype = Some ''Belt''\<rparr>]"

text \<open>
  \<open>deep\<close> is the store after
  \<^verbatim>\<open>d = System("Deep", rank=5); w = Planet("Wanderer", d)\<close> (lemma \<open>deep_built\<close>):
  the planet's rank 3 is below the System's 5.
\<close>

definition deep :: heap where
  "deep =
     [\<lparr>cls_of = System, name = ''Deep'', parent = Some PyNone, bodyRank = Some 5,
        orbitals = None, heads = Some [], bodies = Some [], bodySubtype = None\<rparr>,
      \<lparr>cls_of = Planet, name = ''Wanderer'', parent = Some (Ref 0), bodyRank = Some 3,
        orbitals = Some [], heads = None, bodies = None, bodySubtype = None\<rparr>]"

text \<open>
  \<open>nested\<close> is the store after
  \<^verbatim>\<open>sol = System("Sol"); sun = Star("Sun", sol); inner = System("Inner", sun);
  p = Planet("P", inner)\<close> (lemma \<open>nested_built\<close>): a System below a Star of another
  System. The Sun has adopted Inner (rank 3) and forwarded it to Sol's \<^verbatim>\<open>bodies\<close>;
  Inner has taken the planet, of its own rank, as a head.
\<close>

definition nested :: heap where
  "nested =
     [\<lparr>cls_of = System, name = ''Sol'', parent = Some PyNone, bodyRank = Some 2,
        orbitals = None, heads = Some [1], bodies = Some [2], bodySubtype = None\<rparr>,
      \<lparr>cls_of = Star, name = ''Sun'', parent = Some (Ref 0), bodyRank = Some 2,
        orbitals = Some [2], heads = None, bodies = None, bodySubtype = None\<rparr>,
      \<lparr>cls_of = System, name = ''Inner'', parent = Some (Ref 1), bodyRank = Some 3,
        orbitals = None, heads = Some [3], bodies = Some [], bodySubtype = None\<rparr>,
      \<lparr>cls_of = Planet, name = ''P'', parent = Some (Ref 2), bodyRank = Some 3,
        orbitals = Some [], heads = None, bodies = None, bodySubtype = None\<rparr>]"

section \<open>Basic facts\<close>

lemma system_frame:
  assumes "system h r = Some y"
  shows "snd y = h"
  by (rule system.raw_induct[OF _ assms, where P = "\<lambda>h r y. snd y = h"])
     (auto split: option.splits if_splits val.splits)

lemma system_is_System:
  assumes "system h r = Some y"
  shows "fst y = PyNone \<or> (\<exists>s ob. fst y = Ref s \<and> lookup h s = Some ob \<and> cls_of ob = System)"
  by (rule system.raw_induct[OF _ assms, where P = "\<lambda>h r y. fst y = PyNone \<or>
        (\<exists>s ob. fst y = Ref s \<and> lookup h s = Some ob \<and> cls_of ob = System)"])
     (auto split: option.splits if_splits val.splits)

lemma system_System:
  "lookup h r = Some ob \<Longrightarrow> cls_of ob = System \<Longrightarrow> system h r = Some (Ref r, h)"
  by (subst system.simps) simp

lemma system_step:
  "lookup h r = Some ob \<Longrightarrow> cls_of ob \<noteq> System \<Longrightarrow> parent ob = Some (Ref p) \<Longrightarrow>
   system h r = system h p"
  by (subst system.simps) simp

lemma system_top:
  "lookup h r = Some ob \<Longrightarrow> cls_of ob \<noteq> System \<Longrightarrow>
   parent ob = None \<or> parent ob = Some PyNone \<Longrightarrow> system h r = Some (PyNone, h)"
  by (subst system.simps) auto

lemma bodyType_System: "bodyType k = Some ''System'' \<longleftrightarrow> k = System"
  by (cases k) simp_all

lemma subAssign_System:
  "lookup h s = Some ob \<Longrightarrow> cls_of ob = System \<Longrightarrow>
   subAssign h s c = Some (System_subAssign h s c)"
  by (subst subAssign.simps) simp

lemma subAssign_Minor:
  "lookup h s = Some ob \<Longrightarrow> cls_of ob = Minor \<Longrightarrow> subAssign h s c = Some h"
  by (subst subAssign.simps) simp

lemma length_System_subAssign [simp]: "length (System_subAssign h s c) = length h"
  by (simp add: System_subAssign_def split: option.splits)

lemma System_subAssign_other:
  "r \<noteq> s \<Longrightarrow> System_subAssign h s c ! r = h ! r"
  by (simp add: System_subAssign_def split: option.splits)

lemma System_subAssign_fields:
  "cls_of (System_subAssign h s c ! r) = cls_of (h ! r)"
  "parent (System_subAssign h s c ! r) = parent (h ! r)"
  "bodyRank (System_subAssign h s c ! r) = bodyRank (h ! r)"
  "orbitals (System_subAssign h s c ! r) = orbitals (h ! r)"
  "name (System_subAssign h s c ! r) = name (h ! r)"
  "bodySubtype (System_subAssign h s c ! r) = bodySubtype (h ! r)"
  by (cases "r = s"; simp add: System_subAssign_def lookup_def split: option.splits)+

lemma lookup_Some: "lookup h r = Some ob \<longleftrightarrow> r < length h \<and> ob = h ! r"
  by (auto simp: lookup_def)

lemma chain_system:
  "parent_chain h r ps t \<Longrightarrow> system h r = system h t"
proof (induction ps arbitrary: r)
  case Nil
  then show ?case by simp
next
  case (Cons p ps)
  then obtain ob where ob: "lookup h r = Some ob" "cls_of ob \<noteq> System"
      "parent ob = Some (Ref p)" "parent_chain h p ps t"
    by (auto split: option.splits)
  from system_step[OF ob(1-3)] Cons.IH[OF ob(4)] show ?case by simp
qed

lemma System_subAssign_ranked:
  assumes "lookup h s = Some S" "bodyRank S = Some rs" "heads S = Some hs" "bodies S = Some bs"
      and "lookup h c = Some C" "bodyRank C = Some rc"
  shows "System_subAssign h s c =
           (if rc > rs then h[s := S\<lparr>bodies := Some (bs @ [c])\<rparr>]
            else if rc = rs then h[s := S\<lparr>heads := Some (hs @ [c])\<rparr>]
            else h)"
  using assms by (simp add: System_subAssign_def)

lemma adopt_Done:
  assumes "lookup h b = Some B" "orbitals B = Some os" "bodyRank B = Some rk"
      and "lookup h c = Some C" "c \<noteq> b"
  shows "adopt h b c =
           (Done, h[b := B\<lparr>orbitals := Some (os @ [c])\<rparr>,
                    c := C\<lparr>parent := Some (Ref b), bodyRank := Some (rk + 1)\<rparr>])"
  using assms by (auto simp: adopt_def lookup_def Let_def split: if_splits)

lemma adopt_props:
  assumes "lookup h b = Some B" "orbitals B = Some os" "bodyRank B = Some rk" "c < length h"
  shows "\<exists>h3. adopt h b c = (Done, h3) \<and> length h3 = length h
           \<and> orbitals (h3 ! b) = Some (os @ [c])
           \<and> parent (h3 ! c) = Some (Ref b)
           \<and> bodyRank (h3 ! c) = Some (rk + 1)
           \<and> (\<forall>r. cls_of (h3 ! r) = cls_of (h ! r))
           \<and> (\<forall>r. r \<noteq> c \<longrightarrow> parent (h3 ! r) = parent (h ! r)
                              \<and> bodyRank (h3 ! r) = bodyRank (h ! r))
           \<and> (\<forall>r. r \<noteq> c \<longrightarrow> r \<noteq> b \<longrightarrow> h3 ! r = h ! r)
           \<and> (\<forall>r. heads (h3 ! r) = heads (h ! r) \<and> bodies (h3 ! r) = bodies (h ! r))"
  using assms
  by (cases "c = b") (auto simp: adopt_def lookup_def Let_def nth_list_update split: if_splits)

lemma adopt_length: "length (snd (adopt h b c)) = length h"
  by (auto simp: adopt_def Let_def split: option.splits)

lemma solar_built:
  "Option.bind (System_init ''Sol'' PyNone 2 []) (\<lambda>(sol, h).
   Option.bind (Star_init Star ''Sun'' (Ref sol) h) (\<lambda>(sun, h).
   Option.bind (Planet_init Planet ''Earth'' (Ref sun) h) (\<lambda>(earth, h).
   Option.bind (Planet_init DwarfPlanet ''Luna'' (Ref earth) h) (\<lambda>(luna, h).
   Option.bind (Planet_init Planet ''Rogue'' PyNone h) (\<lambda>(rogue, h).
   Minor_init ''Rock'' (Ref rogue) h))))) = Some (5, solar)"
  by (simp add: System_init_def Star_init_def Planet_init_def Minor_init_def
        assign_to_parent_def subAssign.simps system.simps System_subAssign_def adopt_def
        lookup_def solar_def Let_def)

lemma hub_built:
  "Option.bind (System_init ''Hub'' PyNone 3 []) (\<lambda>(s, h). Star_init Star ''Nova'' (Ref s) h)
     = Some (1, hub)"
  by (simp add: System_init_def Star_init_def assign_to_parent_def subAssign.simps
        System_subAssign_def lookup_def hub_def Let_def)

lemma is_System_iff: "is_System h p \<longleftrightarrow> p < length h \<and> cls_of (h ! p) = System"
  by (simp add: is_System_def lookup_def)

lemma subAssign_forwarder:
  assumes "lookup h b = Some B" and "cls_of B = Star \<or> cls_of B = BlackHole \<or> cls_of B = Belt"
      and "adopt h b c = (Done, h3)"
  shows "subAssign h b c =
           Some (case parent (h3 ! b) of
                   Some (Ref p) \<Rightarrow> if is_System h3 p then System_subAssign h3 p c else h3
                 | _ \<Rightarrow> h3)"
proof -
  have len: "length h3 = length h"
    using adopt_length[of h b c] assms(3) by simp
  have lb: "lookup h3 b = Some (h3 ! b)"
    using assms(1) len by (simp add: lookup_def split: if_splits)
  have fwd: "subAssign h3 p c = Some (System_subAssign h3 p c)"
    if "p < length h3" "cls_of (h3 ! p) = System" for p
    using that by (intro subAssign_System[of h3 p "h3 ! p"]) (simp_all add: lookup_def)
  show ?thesis
    apply (subst subAssign.simps)
    using assms(1,2) lb
    apply (simp add: assms(3))
    apply (auto simp: is_System_iff bodyType_System fwd lookup_def
                split: option.splits val.splits)
    done
qed

lemma subAssign_Body:
  assumes "lookup h b = Some B"
      and "cls_of B = Body \<or> cls_of B = Planet \<or> cls_of B = GiantPlanet \<or> cls_of B = DwarfPlanet"
      and "adopt h b c = (Done, h3)"
  shows "subAssign h b c =
           (case system h3 b of
              None \<Rightarrow> None
            | Some (PyNone, _) \<Rightarrow> Some h3
            | Some (Ref s, _) \<Rightarrow> Some (System_subAssign h3 s c))"
proof (cases "system h3 b")
  case None
  then show ?thesis
    apply (subst subAssign.simps)
    using assms by auto
next
  case (Some y)
  obtain v h4 where y: "y = (v, h4)" by (cases y)
  have h4: "h4 = h3" using system_frame[OF Some] y by simp
  show ?thesis
  proof (cases v)
    case PyNone
    then show ?thesis
      apply (subst subAssign.simps)
      using assms Some y h4 by auto
  next
    case (Ref s)
    then obtain ob where "lookup h3 s = Some ob" "cls_of ob = System"
      using system_is_System[OF Some] y by auto
    then have "subAssign h3 s c = Some (System_subAssign h3 s c)"
      by (rule subAssign_System)
    then show ?thesis
      apply (subst subAssign.simps)
      using assms Some y h4 Ref by auto
  qed
qed

lemma subAssign_adopt_fails:
  assumes "lookup h b = Some B" and "cls_of B \<noteq> System" and "cls_of B \<noteq> Minor"
      and "adopt h b c = (AttributeError, h3)"
  shows "subAssign h b c = Some h3"
  apply (subst subAssign.simps)
  using assms by auto

lemma assign_new:
  assumes "parent ob = Some (Ref p)"
  shows "assign_to_parent (h @ [ob]) (length h) = subAssign (h @ [ob]) p (length h)"
  using assms by (simp add: assign_to_parent_def lookup_def)

lemma assign_new_None:
  assumes "parent ob = Some PyNone"
  shows "assign_to_parent (h @ [ob]) (length h) = Some (h @ [ob])"
  using assms by (simp add: assign_to_parent_def lookup_def)

lemma lookup_append: "lookup h r = Some ob \<Longrightarrow> lookup (h @ [x]) r = Some ob"
  by (auto simp: lookup_def nth_append split: if_splits)

lemma lookup_new: "lookup (h @ [x]) (length h) = Some x"
  by (simp add: lookup_def)


lemma belted_built:
  "Option.bind (System_init ''Sol'' PyNone 2 []) (\<lambda>(s, h). Belt_init ''Main Belt'' (Ref s) 3 h)
     = Some (Done, 1, belted)"
  by (simp add: System_init_def Belt_init_def assign_to_parent_def subAssign.simps
        System_subAssign_def lookup_def belted_def Let_def)

lemma ringed_built:
  "Option.bind (System_init ''Sol'' PyNone 2 []) (\<lambda>(sol, h).
   Option.bind (Star_init Star ''Sun'' (Ref sol) h) (\<lambda>(sun, h).
   Belt_init ''Main Belt'' (Ref sun) 3 h)) = Some (Done, 2, ringed)"
  by (simp add: System_init_def Star_init_def Belt_init_def assign_to_parent_def
        subAssign.simps System_subAssign_def adopt_def lookup_def ringed_def Let_def)

lemma deep_built:
  "Option.bind (System_init ''Deep'' PyNone 5 []) (\<lambda>(s, h).
     Planet_init Planet ''Wanderer'' (Ref s) h) = Some (1, deep)"
  by (simp add: System_init_def Planet_init_def assign_to_parent_def subAssign.simps
        System_subAssign_def lookup_def deep_def Let_def)

lemma nested_built:
  "Option.bind (System_init ''Sol'' PyNone 2 []) (\<lambda>(sol, h).
   Option.bind (Star_init Star ''Sun'' (Ref sol) h) (\<lambda>(sun, h).
   Option.bind (System_init ''Inner'' (Ref sun) 2 h) (\<lambda>(inner, h).
   Planet_init Planet ''P'' (Ref inner) h))) = Some (3, nested)"
  by (simp add: System_init_def Star_init_def Planet_init_def assign_to_parent_def
        subAssign.simps System_subAssign_def adopt_def lookup_def nested_def Let_def)

lemma subAssign_after_adopt:
  assumes "lookup h b = Some B" and "cls_of B \<noteq> System" and "cls_of B \<noteq> Minor"
      and "adopt h b c = (Done, h3)" and "subAssign h b c = Some h'"
  shows "h' = h3 \<or> (\<exists>s. h' = System_subAssign h3 s c)"
proof (cases "cls_of B = Star \<or> cls_of B = BlackHole \<or> cls_of B = Belt")
  case True
  from subAssign_forwarder[OF assms(1) True assms(4)] assms(5)
  show ?thesis by (auto split: option.splits val.splits if_splits)
next
  case False
  then have "cls_of B = Body \<or> cls_of B = Planet \<or> cls_of B = GiantPlanet \<or> cls_of B = DwarfPlanet"
    using assms(2,3) by (cases "cls_of B") simp_all
  from subAssign_Body[OF assms(1) this assms(4)] assms(5)
  show ?thesis by (auto split: option.splits val.splits if_splits)
qed

lemma assign_rank:
  assumes "lookup h p = Some P" and "cls_of P \<noteq> System" and "cls_of P \<noteq> Minor"
      and "orbitals P = Some os" and "bodyRank P = Some rk"
      and "parent ob = Some (Ref p)"
      and "assign_to_parent (h @ [ob]) (length h) = Some h'"
  shows "length h' = Suc (length h) \<and> bodyRank (h' ! length h) = Some (rk + 1)
         \<and> bodyRank (h' ! p) = Some rk"
proof -
  let ?h0 = "h @ [ob]"
  have p: "p < length h" "h ! p = P" using assms(1) by (simp_all add: lookup_Some)
  have lp: "lookup ?h0 p = Some P" using assms(1) by (rule lookup_append)
  have sub: "subAssign ?h0 p (length h) = Some h'"
    using assms(7) assign_new[OF assms(6), of h] by simp
  obtain h3 where h3: "adopt ?h0 p (length h) = (Done, h3)" "length h3 = length ?h0"
      "bodyRank (h3 ! length h) = Some (rk + 1)"
      "\<forall>r. r \<noteq> length h \<longrightarrow> parent (h3 ! r) = parent (?h0 ! r)
             \<and> bodyRank (h3 ! r) = bodyRank (?h0 ! r)"
    using adopt_props[OF lp assms(4,5), of "length h"] by auto
  have rp: "bodyRank (h3 ! p) = Some rk"
    using h3(4) p assms(5) by (simp add: nth_append)
  from subAssign_after_adopt[OF lp assms(2,3) h3(1) sub]
  show ?thesis
    using h3(2,3) rp by (auto simp: System_subAssign_fields)
qed

section \<open>System.subAssign\<close>

text \<open>
  Claim C1. For a System \<open>S\<close> (with its rank and both lists) and a child \<open>c\<close> that has a
  rank, \<^verbatim>\<open>S.subAssign(c)\<close> returns; it appends \<open>c\<close> to \<^verbatim>\<open>heads\<close> when the ranks are
  equal, to \<^verbatim>\<open>bodies\<close> when the child's rank is greater, and leaves the store as it is
  when the child's rank is smaller. In every case the rank of \<open>c\<close> is what it was.
\<close>

theorem System_subAssign_by_rank:
  assumes "lookup h s = Some S" and "cls_of S = System" and "bodyRank S = Some rs"
      and "heads S = Some hs" and "bodies S = Some bs"
      and "lookup h c = Some C" and "bodyRank C = Some rc"
  shows "subAssign h s c =
           Some (if rc = rs then h[s := S\<lparr>heads := Some (hs @ [c])\<rparr>]
                 else if rc > rs then h[s := S\<lparr>bodies := Some (bs @ [c])\<rparr>]
                 else h)
         \<and> (\<forall>h'. subAssign h s c = Some h' \<longrightarrow>
                Option.bind (lookup h' c) bodyRank = Some rc)"
proof -
  have 1: "subAssign h s c = Some (System_subAssign h s c)"
    using assms(1,2) by (rule subAssign_System)
  have 2: "System_subAssign h s c =
             (if rc = rs then h[s := S\<lparr>heads := Some (hs @ [c])\<rparr>]
              else if rc > rs then h[s := S\<lparr>bodies := Some (bs @ [c])\<rparr>]
              else h)"
    using System_subAssign_ranked[OF assms(1,3,4,5,6,7)] by simp
  have 3: "Option.bind (lookup (System_subAssign h s c) c) bodyRank = Some rc"
    using assms(6,7) by (simp add: lookup_def System_subAssign_fields split: if_splits)
  show ?thesis using 1 2 3 by simp
qed

text \<open>
  The three cases on the example stores: the Sun (rank 2) and the Earth (rank 3) given to
  Sol (rank 2), and Nova (rank 2) given to Hub (rank 3).
\<close>

theorem System_subAssign_by_rank_witness:
  "subAssign solar 0 1 = Some (solar[0 := (solar ! 0)\<lparr>heads := Some [1, 1]\<rparr>])
   \<and> subAssign solar 0 2 = Some (solar[0 := (solar ! 0)\<lparr>bodies := Some [2, 3, 2]\<rparr>])
   \<and> subAssign hub 0 1 = Some hub
   \<and> bodyRank (solar[0 := (solar ! 0)\<lparr>heads := Some [1, 1]\<rparr>] ! 1) = Some 2"
  using System_subAssign_by_rank[of solar 0 "solar ! 0" 2 "[1]" "[2, 3]" 1 "solar ! 1" 2]
        System_subAssign_by_rank[of solar 0 "solar ! 0" 2 "[1]" "[2, 3]" 2 "solar ! 2" 3]
        System_subAssign_by_rank[of hub 0 "hub ! 0" 3 "[]" "[]" 1 "hub ! 1" 2]
  by (simp add: lookup_def solar_def hub_def)

section \<open>system()\<close>

text \<open>
  Claim C7, as the code has it. \<^verbatim>\<open>system()\<close> of a System is that System. For any
  other node it is the nearest System above it: when the parent links lead to a System
  \<open>t\<close> through nodes that are not Systems (at any distance and whatever the classes of
  these nodes), \<^verbatim>\<open>system()\<close> returns a reference to \<open>t\<close> itself, whatever lies above
  \<open>t\<close>; this is the root System when no other System lies on the way there. When the
  parent links end at a node that is no System and has no parent (the attribute is
  missing or \<^verbatim>\<open>None\<close>), so that no ancestor is a System, \<^verbatim>\<open>system()\<close> returns
  \<^verbatim>\<open>None\<close>. In each case the call returns.
\<close>

theorem system_finds_System:
  "(lookup h t = Some T \<and> cls_of T = System \<longrightarrow> system h t = Some (Ref t, h)) \<and>
   (parent_chain h r ps t \<and> lookup h t = Some T \<and> cls_of T = System
      \<longrightarrow> system h r = Some (Ref t, h)) \<and>
   (parent_chain h r ps t \<and> lookup h t = Some T \<and> cls_of T \<noteq> System
      \<and> (parent T = None \<or> parent T = Some PyNone)
      \<longrightarrow> system h r = Some (PyNone, h))"
  using chain_system[of h r ps t] system_System[of h t T] system_top[of h t T]
  by auto

text \<open>
  On \<open>solar\<close>: Sol answers itself, Luna (three links below Sol) answers Sol, and the Minor
  on the rogue planet answers \<^verbatim>\<open>None\<close>. On \<open>nested\<close>: the planet answers Inner, the
  System next to it.
\<close>

theorem system_finds_System_witness:
  "system solar 0 = Some (Ref 0, solar) \<and> system solar 3 = Some (Ref 0, solar)
   \<and> system solar 5 = Some (PyNone, solar) \<and> system nested 3 = Some (Ref 2, nested)"
proof -
  have 1: "lookup solar 0 = Some (solar ! 0) \<and> cls_of (solar ! 0) = System"
    by (simp add: solar_def lookup_def)
  have 2: "parent_chain solar 3 [2, 1, 0] 0"
    by (simp add: solar_def lookup_def)
  have 3: "parent_chain solar 5 [4] 4 \<and> lookup solar 4 = Some (solar ! 4)
      \<and> cls_of (solar ! 4) \<noteq> System
      \<and> (parent (solar ! 4) = None \<or> parent (solar ! 4) = Some PyNone)"
    by (simp add: solar_def lookup_def)
  have 4: "parent_chain nested 3 [2] 2 \<and> lookup nested 2 = Some (nested ! 2)
      \<and> cls_of (nested ! 2) = System"
    by (simp add: nested_def lookup_def)
  show ?thesis
    using system_finds_System[of solar 0 "solar ! 0" 3 "[2, 1, 0]"]
          system_finds_System[of solar 4 "solar ! 4" 5 "[4]"]
          system_finds_System[of nested 2 "nested ! 2" 3 "[2]"] 1 2 3 4
    by simp
qed

text \<open>
  The claim as the specification states it gives every descendant of a System the
  root System. In \<open>nested\<close> the parent links lead from the planet over Inner and the Sun
  to Sol, which has no parent: Sol is the root. The Sun answers Sol, but Inner answers
  itself (\<^verbatim>\<open>System.system\<close> returns \<^verbatim>\<open>self\<close>) and the planet answers Inner.
\<close>

theorem system_root_counterexample:
  "parent (nested ! 3) = Some (Ref 2) \<and> parent (nested ! 2) = Some (Ref 1)
   \<and> parent (nested ! 1) = Some (Ref 0) \<and> cls_of (nested ! 0) = System
   \<and> parent (nested ! 0) = Some PyNone
   \<and> system nested 0 = Some (Ref 0, nested)
   \<and> system nested 1 = Some (Ref 0, nested)
   \<and> system nested 2 = Some (Ref 2, nested)
   \<and> system nested 3 = Some (Ref 2, nested)"
  unfolding nested_def by (simp add: system.simps lookup_def)

text \<open>
  Claim C9. A call of \<^verbatim>\<open>system()\<close> that returns leaves the store exactly as it found
  it, and a second call right after it returns the same value, again with the same
  store.
\<close>

theorem system_idempotent:
  "system h r = Some (v, h') \<Longrightarrow> h' = h \<and> system h' r = Some (v, h')"
  using system_frame[of h r "(v, h')"] by simp

theorem system_idempotent_witness:
  "system solar 3 = Some (Ref 0, solar) \<and> system solar 3 = Some (Ref 0, solar)"
proof -
  have a: "system solar 3 = Some (Ref 0, solar)"
    unfolding solar_def by (simp add: system.simps lookup_def)
  from system_idempotent[OF a] a show ?thesis by simp
qed

section \<open>Star\<close>

text \<open>
  Claim C3. A Star (or BlackHole) constructed with a parent that is a System of rank 2
  has rank 2 at the end of the construction, as the System still has; it is the last
  entry of the System's \<^verbatim>\<open>heads\<close> and is not in its \<^verbatim>\<open>bodies\<close>, which are what they
  were. \<^verbatim>\<open>Star.__init__\<close> sets \<^verbatim>\<open>bodyRank = 2\<close> before it calls the parent's
  \<^verbatim>\<open>subAssign\<close>. (The references in \<^verbatim>\<open>bodies\<close> are those of existing objects.)
\<close>

theorem Star_under_System_is_head:
  assumes "k = Star \<or> k = BlackHole"
      and "lookup h s = Some S" and "cls_of S = System" and "bodyRank S = Some 2"
      and "heads S = Some hs" and "bodies S = Some bs" and "\<forall>b \<in> set bs. b < length h"
  shows "\<exists>h'. Star_init k nm (Ref s) h = Some (length h, h')
           \<and> bodyRank (h' ! length h) = Some 2
           \<and> bodyRank (h' ! s) = Some 2
           \<and> heads (h' ! s) = Some (hs @ [length h])
           \<and> bodies (h' ! s) = Some bs
           \<and> length h \<notin> set bs"
proof -
  define ob where "ob = \<lparr>cls_of = k, name = nm, parent = Some (Ref s), bodyRank = Some 2,
        orbitals = Some [], heads = None, bodies = None, bodySubtype = None\<rparr>"
  let ?h0 = "h @ [ob]"
  have s: "s < length h" using assms(2) by (simp add: lookup_Some)
  have 1: "assign_to_parent ?h0 (length h) = subAssign ?h0 s (length h)"
    by (rule assign_new) (simp add: ob_def)
  have 2: "subAssign ?h0 s (length h) = Some (System_subAssign ?h0 s (length h))"
    using lookup_append[OF assms(2)] assms(3) by (rule subAssign_System)
  have 3: "System_subAssign ?h0 s (length h) = ?h0[s := S\<lparr>heads := Some (hs @ [length h])\<rparr>]"
  proof -
    have lc: "lookup ?h0 (length h) = Some ob" by (rule lookup_new)
    have rc: "bodyRank ob = Some 2" by (simp add: ob_def)
    show ?thesis
      using System_subAssign_ranked[OF lookup_append[OF assms(2)] assms(4,5,6) lc rc] by simp
  qed
  have 4: "Star_init k nm (Ref s) h = Some (length h, ?h0[s := S\<lparr>heads := Some (hs @ [length h])\<rparr>])"
    using 1 2 3 by (simp add: Star_init_def Let_def ob_def)
  have 5: "length h \<notin> set bs" using assms(7) by auto
  show ?thesis
    using 4 5 s assms(4,5,6) by (simp add: nth_append ob_def)
qed


text \<open>A second core body added to Sol in \<open>solar\<close>.\<close>

theorem Star_under_System_is_head_witness:
  "\<exists>h'. Star_init BlackHole ''Cygnus X-1'' (Ref 0) solar = Some (6, h')
     \<and> bodyRank (h' ! 6) = Some 2 \<and> bodyRank (h' ! 0) = Some 2
     \<and> heads (h' ! 0) = Some [1, 6] \<and> bodies (h' ! 0) = Some [2, 3] \<and> 6 \<notin> set [2, 3::nat]"
proof -
  have L: "length solar = 6" by (simp add: solar_def)
  show ?thesis
    using Star_under_System_is_head[of BlackHole solar 0 "solar ! 0" "[1]" "[2, 3]"
            "''Cygnus X-1''", unfolded L]
    by (simp add: solar_def lookup_def)
qed

text \<open>
  Claim C4, as the code has it. For a Star (or BlackHole) \<open>st\<close> that has its orbitals
  and its rank \<open>rk\<close>, and any existing object \<open>c\<close>, \<^verbatim>\<open>st.subAssign(c)\<close> returns; after
  it \<open>c\<close> is the last entry of \<^verbatim>\<open>st.orbitals\<close>, \<^verbatim>\<open>c.parent\<close> is \<open>st\<close> and
  \<^verbatim>\<open>c.bodyRank\<close> is \<open>rk + 1\<close>. The store \<open>h3\<close> is the one after these three
  statements. The method then calls \<^verbatim>\<open>subAssign\<close> of \<^verbatim>\<open>st.parent\<close> exactly when
  \<^verbatim>\<open>st.parent\<close>, read in \<open>h3\<close> (it is the parent \<open>st\<close> had before unless \<open>c\<close> is \<open>st\<close>
  itself), is a System; otherwise \<open>h3\<close> is the result. Where the System files the
  child depends on the ranks: in \<^verbatim>\<open>bodies\<close> when \<open>rk + 1\<close> is greater than the System's
  rank, in \<^verbatim>\<open>heads\<close> when it is equal, nowhere when it is smaller.
\<close>

theorem Star_subAssign_forwards:
  assumes "lookup h st = Some ST" and "cls_of ST = Star \<or> cls_of ST = BlackHole"
      and "orbitals ST = Some os" and "bodyRank ST = Some rk" and "c < length h"
  shows "\<exists>h3 h'. adopt h st c = (Done, h3) \<and> subAssign h st c = Some h'
           \<and> orbitals (h' ! st) = Some (os @ [c])
           \<and> parent (h' ! c) = Some (Ref st)
           \<and> bodyRank (h' ! c) = Some (rk + 1)
           \<and> (c \<noteq> st \<longrightarrow> parent (h3 ! st) = parent ST)
           \<and> h' = (case parent (h3 ! st) of
                     Some (Ref p) \<Rightarrow> if is_System h3 p then System_subAssign h3 p c else h3
                   | _ \<Rightarrow> h3)
           \<and> (\<forall>p P rs hs bs. parent (h3 ! st) = Some (Ref p) \<and> lookup h3 p = Some P
                  \<and> cls_of P = System \<and> bodyRank P = Some rs
                  \<and> heads P = Some hs \<and> bodies P = Some bs
                \<longrightarrow> h' = (if rk + 1 > rs then h3[p := P\<lparr>bodies := Some (bs @ [c])\<rparr>]
                          else if rk + 1 = rs then h3[p := P\<lparr>heads := Some (hs @ [c])\<rparr>]
                          else h3))"
proof -
  obtain h3 where h3: "adopt h st c = (Done, h3)" "length h3 = length h"
      "orbitals (h3 ! st) = Some (os @ [c])" "parent (h3 ! c) = Some (Ref st)"
      "bodyRank (h3 ! c) = Some (rk + 1)"
      "\<forall>r. r \<noteq> c \<longrightarrow> parent (h3 ! r) = parent (h ! r) \<and> bodyRank (h3 ! r) = bodyRank (h ! r)"
    using adopt_props[OF assms(1,3,4,5)] by blast
  define h' where "h' = (case parent (h3 ! st) of
                     Some (Ref p) \<Rightarrow> if is_System h3 p then System_subAssign h3 p c else h3
                   | _ \<Rightarrow> h3)"
  have sub: "subAssign h st c = Some h'"
    unfolding h'_def using assms(1) _ h3(1) by (rule subAssign_forwarder) (use assms(2) in auto)
  have fields: "orbitals (h' ! r) = orbitals (h3 ! r) \<and> parent (h' ! r) = parent (h3 ! r)
                  \<and> bodyRank (h' ! r) = bodyRank (h3 ! r)" for r
    unfolding h'_def by (simp add: System_subAssign_fields split: option.splits val.splits)
  have par: "c \<noteq> st \<longrightarrow> parent (h3 ! st) = parent ST"
    using h3(6) assms(1) by (auto simp: lookup_Some)
  have fw: "h' = (if rk + 1 > rs then h3[p := P\<lparr>bodies := Some (bs @ [c])\<rparr>]
                          else if rk + 1 = rs then h3[p := P\<lparr>heads := Some (hs @ [c])\<rparr>]
                          else h3)"
    if "parent (h3 ! st) = Some (Ref p)" "lookup h3 p = Some P" "cls_of P = System"
       "bodyRank P = Some rs" "heads P = Some hs" "bodies P = Some bs" for p P rs hs bs
  proof -
    have "is_System h3 p" using that(2,3) by (simp add: is_System_def)
    then have "h' = System_subAssign h3 p c" using that(1) by (simp add: h'_def)
    moreover have "lookup h3 c = Some (h3 ! c)" using assms(5) h3(2) by (simp add: lookup_def)
    ultimately show ?thesis
      using System_subAssign_ranked[OF that(2,4,5,6) _ h3(5)] by simp
  qed
  show ?thesis
    using h3(1) sub fields h3(3,4,5) par fw h'_def by (intro exI[of _ h3] exI[of _ h']) simp
qed

text \<open>
  In \<open>solar\<close> the Sun is given the rogue planet: the planet joins the Sun's orbitals
  with rank 3 and, the Sun's parent being Sol of rank 2, Sol's \<^verbatim>\<open>bodies\<close> as well.
\<close>

theorem Star_subAssign_forwards_witness:
  "subAssign solar 1 4 = Some (solar[1 := (solar ! 1)\<lparr>orbitals := Some [2, 4]\<rparr>,
       4 := (solar ! 4)\<lparr>parent := Some (Ref 1), bodyRank := Some 3\<rparr>,
       0 := (solar ! 0)\<lparr>bodies := Some [2, 3, 4]\<rparr>])"
  using Star_subAssign_forwards[of solar 1 "solar ! 1" "[2]" 2 4]
  by (simp add: solar_def lookup_def adopt_def is_System_def System_subAssign_def)

text \<open>
  The claim as the specification states it promises membership in the System's
  \<^verbatim>\<open>bodies\<close> whenever the Star's parent is a System. In \<open>hub\<close> the System has rank 3
  and its Star rank 2: \<^verbatim>\<open>Planet("Ember", nova)\<close> makes the Star give the planet rank
  3 and forward it, and the System files it under \<^verbatim>\<open>heads\<close>; \<^verbatim>\<open>bodies\<close> stays empty.
\<close>

theorem Star_forward_counterexample:
  "Planet_init Planet ''Ember'' (Ref 1) hub =
     Some (2,
       [\<lparr>cls_of = System, name = ''Hub'', parent = Some PyNone, bodyRank = Some 3,
          orbitals = None, heads = Some [2], bodies = Some [], bodySubtype = None\<rparr>,
        \<lparr>cls_of = Star, name = ''Nova'', parent = Some (Ref 0), bodyRank = Some 2,
          orbitals = Some [2], heads = None, bodies = None, bodySubtype = None\<rparr>,
        \<lparr>cls_of = Planet, name = ''Ember'', parent = Some (Ref 1), bodyRank = Some 3,
          orbitals = Some [], heads = None, bodies = None, bodySubtype = None\<rparr>])"
  by (simp add: Planet_init_def assign_to_parent_def subAssign.simps System_subAssign_def
        adopt_def lookup_def hub_def Let_def)

section \<open>Belt\<close>

text \<open>
  Claim C8 says that no constructor lets an exception out. \<^verbatim>\<open>Belt("Kuiper Belt")\<close>,
  with the default \<^verbatim>\<open>parent=None\<close>, does: the read of \<^verbatim>\<open>self.parent.bodyType\<close> after
  the \<^verbatim>\<open>try\<close> raises \<^verbatim>\<open>AttributeError\<close>, and nothing catches it.
\<close>

theorem Belt_without_parent_raises:
  "Belt_init ''Kuiper Belt'' PyNone 3 [] =
     Some (AttributeError, 0,
       [\<lparr>cls_of = Belt, name = ''Kuiper Belt'', parent = Some PyNone, bodyRank = Some 3,
          orbitals = Some [], heads = None, bodies = None, bodySubtype = None\<rparr>])"
  by (simp add: Belt_init_def assign_to_parent_def lookup_def Let_def)

section \<open>A Minor in a Belt\<close>

lemma Minor_under_Belt_aux:
  assumes "lookup h b = Some B" and "cls_of B = Belt" and "orbitals B = Some os"
      and "bodyRank B = Some rk"
      and "V = \<lparr>cls_of = Minor, name = nm, parent = Some (Ref b), bodyRank = Some (rk + 1),
                 orbitals = None, heads = None, bodies = None, bodySubtype = None\<rparr>"
      and "h3 = h[b := B\<lparr>orbitals := Some (os @ [length h])\<rparr>] @ [V]"
      and "h' = (case parent B of
                  Some (Ref p) \<Rightarrow> if is_System h p then System_subAssign h3 p (length h) else h3
                | _ \<Rightarrow> h3)"
  shows "Minor_init nm (Ref b) h = Some (length h, h')"
    and "parent B = Some (Ref p) \<Longrightarrow> lookup h p = Some S \<Longrightarrow> cls_of S = System \<Longrightarrow>
         bodyRank S = Some rs \<Longrightarrow> heads S = Some hs \<Longrightarrow> bodies S = Some bs \<Longrightarrow>
         h' = (if rk + 1 > rs then h3[p := S\<lparr>bodies := Some (bs @ [length h])\<rparr>]
               else if rk + 1 = rs then h3[p := S\<lparr>heads := Some (hs @ [length h])\<rparr>]
               else h3)"
proof -
  define V0 where "V0 = \<lparr>cls_of = Minor, name = nm, parent = Some (Ref b), bodyRank = Some 4,
                 orbitals = None, heads = None, bodies = None, bodySubtype = None\<rparr>"
  let ?h0 = "h @ [V0]"
  have b: "b < length h" "h ! b = B" using assms(1) by (simp_all add: lookup_Some)
  have lb: "lookup ?h0 b = Some B" using assms(1) by (rule lookup_append)
  have ad: "adopt ?h0 b (length h) = (Done, h3)"
    using adopt_Done[OF lb assms(3,4) lookup_new] b
    by (simp add: assms(5,6) V0_def list_update_append)
  have par: "parent (h3 ! b) = parent B" using b by (simp add: assms(6) nth_append)
  have sys: "is_System h3 q \<longleftrightarrow> is_System h q" for q
    using b assms(2)
    by (cases "q = b") (auto simp: is_System_iff assms(5,6) nth_append nth_list_update)
  have "subAssign ?h0 b (length h) = Some h'"
    using subAssign_forwarder[OF lb _ ad] assms(2) par sys
    by (simp add: assms(7) cong: option.case_cong val.case_cong)
  then show "Minor_init nm (Ref b) h = Some (length h, h')"
    using assign_new[of V0 b h] by (simp add: Minor_init_def Let_def V0_def)
  assume p: "parent B = Some (Ref p)" "lookup h p = Some S" "cls_of S = System"
         "bodyRank S = Some rs" "heads S = Some hs" "bodies S = Some bs"
  have "p \<noteq> b" using p(2,3) assms(1,2) by auto
  then have lp: "lookup h3 p = Some S"
    using p(2) by (auto simp: lookup_Some assms(6) nth_append)
  have lc: "lookup h3 (length h) = Some V" by (simp add: assms(6) lookup_def nth_append)
  have rc: "bodyRank V = Some (rk + 1)" by (simp add: assms(5))
  have "is_System h p" using p(2,3) by (simp add: is_System_def)
  then have "h' = System_subAssign h3 p (length h)" using p(1) by (simp add: assms(7))
  then show "h' = (if rk + 1 > rs then h3[p := S\<lparr>bodies := Some (bs @ [length h])\<rparr>]
               else if rk + 1 = rs then h3[p := S\<lparr>heads := Some (hs @ [length h])\<rparr>]
               else h3)"
    using System_subAssign_ranked[OF lp p(4,5,6) lc rc] by simp
qed

text \<open>
  Claim C5, as the code has it. \<^verbatim>\<open>Minor(nm, belt)\<close>, for a Belt with its orbitals and a
  rank \<open>rk\<close>, always completes. \<open>h3\<close> is the store in which the Belt has the Minor as
  its last orbital and the Minor \<open>V\<close> has the Belt as parent and rank \<open>rk + 1\<close>. When the
  Belt's own parent is a System, \<^verbatim>\<open>Belt.subAssign\<close> hands the Minor to that System,
  which files it by rank (\<^verbatim>\<open>bodies\<close> when \<open>rk + 1\<close> exceeds the System's rank); when
  the Belt's parent is anything else, \<open>h3\<close> is the result, so that no System has
  changed. What is broken is \<^verbatim>\<open>Minor.subAssign\<close>, the method of a Minor as a
  container (lemma \<open>subAssign_Minor\<close>); it plays no part when a Minor is the child.
\<close>

theorem Minor_under_Belt:
  assumes "lookup h b = Some B" and "cls_of B = Belt" and "orbitals B = Some os"
      and "bodyRank B = Some rk"
      and "V = \<lparr>cls_of = Minor, name = nm, parent = Some (Ref b), bodyRank = Some (rk + 1),
                 orbitals = None, heads = None, bodies = None, bodySubtype = None\<rparr>"
      and "h3 = h[b := B\<lparr>orbitals := Some (os @ [length h])\<rparr>] @ [V]"
      and "h' = (case parent B of
                  Some (Ref p) \<Rightarrow> if is_System h p then System_subAssign h3 p (length h) else h3
                | _ \<Rightarrow> h3)"
  shows "Minor_init nm (Ref b) h = Some (length h, h')
         \<and> (parent B = Some (Ref p) \<and> lookup h p = Some S \<and> cls_of S = System
              \<and> bodyRank S = Some rs \<and> heads S = Some hs \<and> bodies S = Some bs
            \<longrightarrow> h' = (if rk + 1 > rs then h3[p := S\<lparr>bodies := Some (bs @ [length h])\<rparr>]
                      else if rk + 1 = rs then h3[p := S\<lparr>heads := Some (hs @ [length h])\<rparr>]
                      else h3))"
  using Minor_under_Belt_aux[OF assms] by blast

text \<open>
  Vesta in the Belt of \<open>ringed\<close>, whose parent is the Star: only the Belt changes and
  Vesta is added. Vesta in the Belt of \<open>belted\<close>, whose parent is Sol: Sol's
  \<^verbatim>\<open>bodies\<close> receive Vesta as well.
\<close>

theorem Minor_under_Belt_witness:
  "Minor_init ''Vesta'' (Ref 2) ringed
     = Some (3, ringed[2 := (ringed ! 2)\<lparr>orbitals := Some [3]\<rparr>] @
          [\<lparr>cls_of = Minor, name = ''Vesta'', parent = Some (Ref 2), bodyRank = Some 4,
             orbitals = None, heads = None, bodies = None, bodySubtype = None\<rparr>])
   \<and> Minor_init ''Vesta'' (Ref 1) belted
     = Some (2, (belted[1 := (belted ! 1)\<lparr>orbitals := Some [2]\<rparr>] @
          [\<lparr>cls_of = Minor, name = ''Vesta'', parent = Some (Ref 1), bodyRank = Some 4,
             orbitals = None, heads = None, bodies = None, bodySubtype = None\<rparr>])
          [0 := (belted ! 0)\<lparr>bodies := Some [1, 2]\<rparr>])"
proof -
  have L: "length ringed = 3" "length belted = 2" by (simp_all add: ringed_def belted_def)
  have r: "lookup ringed 2 = Some (ringed ! 2)" "cls_of (ringed ! 2) = Belt"
      "orbitals (ringed ! 2) = Some []" "bodyRank (ringed ! 2) = Some 3"
    by (simp_all add: ringed_def lookup_def)
  have r': "parent (ringed ! 2) = Some (Ref 1)" "\<not> is_System ringed 1"
    by (simp_all add: ringed_def lookup_def is_System_def)
  have b: "lookup belted 1 = Some (belted ! 1)" "cls_of (belted ! 1) = Belt"
      "orbitals (belted ! 1) = Some []" "bodyRank (belted ! 1) = Some 3"
    by (simp_all add: belted_def lookup_def)
  have b': "parent (belted ! 1) = Some (Ref 0) \<and> lookup belted 0 = Some (belted ! 0)
      \<and> cls_of (belted ! 0) = System \<and> bodyRank (belted ! 0) = Some 2
      \<and> heads (belted ! 0) = Some [] \<and> bodies (belted ! 0) = Some [1]"
    by (simp add: belted_def lookup_def)
  show ?thesis
    using Minor_under_Belt[OF r refl refl refl, of "''Vesta''", unfolded L] r'
          Minor_under_Belt[OF b refl refl refl, of "''Vesta''" 0 "belted ! 0" 2 "[]" "[1]",
            unfolded L] b'
    by simp
qed

text \<open>
  The claim as the specification states it says that the Minor never reaches the
  \<^verbatim>\<open>bodies\<close> of an enclosing System. In \<open>belted\<close> it does: after
  \<^verbatim>\<open>Minor("Vesta", belt)\<close> the \<^verbatim>\<open>bodies\<close> of Sol are the Belt and Vesta.
\<close>

theorem Minor_under_Belt_counterexample:
  "Minor_init ''Vesta'' (Ref 1) belted =
     Some (2,
       [\<lparr>cls_of = System, name = ''Sol'', parent = Some PyNone, bodyRank = Some 2,
          orbitals = None, heads = Some [], bodies = Some [1, 2], bodySubtype = None\<rparr>,
        \<lparr>cls_of = Belt, name = ''Main Belt'', parent = Some (Ref 0), bodyRank = Some 3,
          orbitals = Some [2], heads = None, bodies = None, bodySubtype = Some ''Cloud''\<rparr>,
        \<lparr>cls_of = Minor, name = ''Vesta'', parent = Some (Ref 1), bodyRank = Some 4,
          orbitals = None, heads = None, bodies = None, bodySubtype = None\<rparr>])"
  by (simp add: Minor_init_def assign_to_parent_def subAssign.simps System_subAssign_def
        adopt_def lookup_def belted_def Let_def)

section \<open>Forwarding by Body and by Belt\<close>

lemma parent_chain_update:
  assumes "length h' = length h"
      and "\<forall>r. r \<noteq> c \<longrightarrow> cls_of (h' ! r) = cls_of (h ! r) \<and> parent (h' ! r) = parent (h ! r)"
  shows "parent_chain h r ps t \<Longrightarrow> c \<noteq> r \<Longrightarrow> c \<notin> set ps \<Longrightarrow> parent_chain h' r ps t"
proof (induction ps arbitrary: r)
  case Nil
  then show ?case by simp
next
  case (Cons p ps)
  then show ?case
    using assms by (auto simp: lookup_def split: if_splits)
qed






section \<open>What System.subAssign leaves alone\<close>

lemma adopt_parent:
  assumes "lookup h b = Some B" and "orbitals B = Some os" and "c < length h"
  shows "length (snd (adopt h b c)) = length h
         \<and> parent (snd (adopt h b c) ! c) = Some (Ref b)"
  using assms
  by (auto simp: adopt_def lookup_def Let_def nth_list_update split: option.splits if_splits)

lemma container_sets_parent:
  assumes "lookup h b = Some B" and "cls_of B \<noteq> System" and "cls_of B \<noteq> Minor"
      and "orbitals B = Some os" and "c < length h" and "subAssign h b c = Some h'"
  shows "parent (h' ! c) = Some (Ref b)"
proof -
  obtain st h3 where ad: "adopt h b c = (st, h3)" by (cases "adopt h b c")
  have p3: "parent (h3 ! c) = Some (Ref b)"
    using adopt_parent[OF assms(1,4,5)] ad by simp
  show ?thesis
  proof (cases st)
    case Done
    from subAssign_after_adopt[OF assms(1,2,3) ad[unfolded Done] assms(6)] p3
    show ?thesis by (auto simp: System_subAssign_fields)
  next
    case AttributeError
    from subAssign_adopt_fails[OF assms(1,2,3) ad[unfolded AttributeError]] assms(6) p3
    show ?thesis by simp
  qed
qed

lemma assign_under_System:
  assumes "lookup h s = Some S" and "cls_of S = System" and "parent ob = Some (Ref s)"
  shows "assign_to_parent (h @ [ob]) (length h) = Some (System_subAssign (h @ [ob]) s (length h))"
    and "parent (System_subAssign (h @ [ob]) s (length h) ! length h) = Some (Ref s)"
    and "cls_of (System_subAssign (h @ [ob]) s (length h) ! s) = System"
proof -
  show "assign_to_parent (h @ [ob]) (length h) = Some (System_subAssign (h @ [ob]) s (length h))"
    using assign_new[OF assms(3), of h] subAssign_System[OF lookup_append[OF assms(1)] assms(2)]
    by simp
  show "parent (System_subAssign (h @ [ob]) s (length h) ! length h) = Some (Ref s)"
    using assms(3) by (simp add: System_subAssign_fields)
  show "cls_of (System_subAssign (h @ [ob]) s (length h) ! s) = System"
    using assms(1,2) by (auto simp: System_subAssign_fields lookup_Some nth_append)
qed

text \<open>
  Claim C10. \<^verbatim>\<open>System.subAssign\<close> writes neither \<^verbatim>\<open>parent\<close> nor \<^verbatim>\<open>bodyRank\<close> of the
  child, and a child that is not the System itself is the same object after the call
  as before. The other containers (Star, Belt, Body and the planets, with their
  orbitals) do set the child's \<^verbatim>\<open>parent\<close> to themselves, and the forwarding into a
  System does not undo it: after their \<^verbatim>\<open>subAssign\<close> has returned, the child's
  \<^verbatim>\<open>parent\<close> is the container. A body constructed with a System as parent has, at the
  end of a construction that always completes, the \<^verbatim>\<open>parent\<close> that its own
  constructor wrote.
\<close>

theorem System_subAssign_leaves_child:
  "map_option parent (lookup (System_subAssign h s c) c) = map_option parent (lookup h c)
   \<and> map_option bodyRank (lookup (System_subAssign h s c) c) = map_option bodyRank (lookup h c)
   \<and> (c \<noteq> s \<longrightarrow> lookup (System_subAssign h s c) c = lookup h c)
   \<and> (lookup h b = Some B \<and> cls_of B \<noteq> System \<and> cls_of B \<noteq> Minor \<and> orbitals B = Some os
        \<and> c < length h \<and> subAssign h b c = Some h'
      \<longrightarrow> parent (h' ! c) = Some (Ref b))
   \<and> (lookup h s = Some S \<and> cls_of S = System
      \<longrightarrow> (\<exists>h1. Planet_init k nm (Ref s) h = Some (length h, h1)
                 \<and> parent (h1 ! length h) = Some (Ref s))
        \<and> (\<exists>h1. Star_init k' nm (Ref s) h = Some (length h, h1)
                 \<and> parent (h1 ! length h) = Some (Ref s))
        \<and> (\<exists>h1. System_init nm (Ref s) rank h = Some (length h, h1)
                 \<and> parent (h1 ! length h) = Some (Ref s))
        \<and> (\<exists>h1. Minor_init nm (Ref s) h = Some (length h, h1)
                 \<and> parent (h1 ! length h) = Some (Ref s))
        \<and> (\<exists>h1. Belt_init nm (Ref s) rank h = Some (Done, length h, h1)
                 \<and> parent (h1 ! length h) = Some (Ref s)))"
proof -
  have 1: "map_option parent (lookup (System_subAssign h s c) c) = map_option parent (lookup h c)"
    by (simp add: lookup_def System_subAssign_fields)
  have 2: "map_option bodyRank (lookup (System_subAssign h s c) c)
             = map_option bodyRank (lookup h c)"
    by (simp add: lookup_def System_subAssign_fields)
  have 3: "c \<noteq> s \<longrightarrow> lookup (System_subAssign h s c) c = lookup h c"
    by (simp add: lookup_def System_subAssign_other)
  have 4: "lookup h b = Some B \<and> cls_of B \<noteq> System \<and> cls_of B \<noteq> Minor \<and> orbitals B = Some os
        \<and> c < length h \<and> subAssign h b c = Some h'
      \<longrightarrow> parent (h' ! c) = Some (Ref b)"
    using container_sets_parent by blast
  have 5: "(\<exists>h1. Planet_init k nm (Ref s) h = Some (length h, h1)
                 \<and> parent (h1 ! length h) = Some (Ref s))
        \<and> (\<exists>h1. Star_init k' nm (Ref s) h = Some (length h, h1)
                 \<and> parent (h1 ! length h) = Some (Ref s))
        \<and> (\<exists>h1. System_init nm (Ref s) rank h = Some (length h, h1)
                 \<and> parent (h1 ! length h) = Some (Ref s))
        \<and> (\<exists>h1. Minor_init nm (Ref s) h = Some (length h, h1)
                 \<and> parent (h1 ! length h) = Some (Ref s))
        \<and> (\<exists>h1. Belt_init nm (Ref s) rank h = Some (Done, length h, h1)
                 \<and> parent (h1 ! length h) = Some (Ref s))"
    if S: "lookup h s = Some S" "cls_of S = System"
  proof -
    note a = assign_under_System[OF S]
    have s: "s < length h" using S(1) by (simp add: lookup_Some)
    have p: "\<exists>h1. Planet_init k nm (Ref s) h = Some (length h, h1)
                 \<and> parent (h1 ! length h) = Some (Ref s)"
      by (simp add: Planet_init_def Let_def a(1,2))
    have st: "\<exists>h1. Star_init k' nm (Ref s) h = Some (length h, h1)
                 \<and> parent (h1 ! length h) = Some (Ref s)"
      by (simp add: Star_init_def Let_def a(1,2))
    have sy: "\<exists>h1. System_init nm (Ref s) rank h = Some (length h, h1)
                 \<and> parent (h1 ! length h) = Some (Ref s)"
      by (simp add: System_init_def Let_def a(1,2))
    have m: "\<exists>h1. Minor_init nm (Ref s) h = Some (length h, h1)
                 \<and> parent (h1 ! length h) = Some (Ref s)"
      by (simp add: Minor_init_def Let_def a(1,2))
    have b: "\<exists>h1. Belt_init nm (Ref s) rank h = Some (Done, length h, h1)
                 \<and> parent (h1 ! length h) = Some (Ref s)"
      using s by (simp add: Belt_init_def Let_def a lookup_def)
    show ?thesis using p st sy m b by blast
  qed
  show ?thesis using 1 2 3 4 5 by blast
qed

text \<open>
  In \<open>solar\<close>: Sol given the rogue planet leaves the planet as it is; the Sun given the
  rogue planet forwards it to Sol, and the planet's parent is the Sun; a planet
  constructed under Sol has Sol as parent.
\<close>

theorem System_subAssign_leaves_child_witness:
  "lookup (System_subAssign solar 0 4) 4 = lookup solar 4
   \<and> (\<exists>h'. subAssign solar 1 4 = Some h' \<and> parent (h' ! 4) = Some (Ref 1))
   \<and> (\<exists>h1. Planet_init Planet ''Mercury'' (Ref 0) solar = Some (6, h1)
          \<and> parent (h1 ! 6) = Some (Ref 0))"
proof -
  have L: "length solar = 6" by (simp add: solar_def)
  have "\<exists>h'. subAssign solar 1 4 = Some h'"
    by (simp add: subAssign.simps adopt_def System_subAssign_def lookup_def solar_def Let_def)
  then obtain h2 where h2: "subAssign solar 1 4 = Some h2" ..
  have f: "lookup solar 1 = Some (solar ! 1) \<and> cls_of (solar ! 1) \<noteq> System
      \<and> cls_of (solar ! 1) \<noteq> Minor \<and> orbitals (solar ! 1) = Some [2]"
    by (simp add: solar_def lookup_def)
  have g: "lookup solar 0 = Some (solar ! 0) \<and> cls_of (solar ! 0) = System \<and> (4::nat) \<noteq> 0"
    by (simp add: solar_def lookup_def)
  note t = System_subAssign_leaves_child[where h = solar and s = 0 and c = 4 and b = 1
      and B = "solar ! 1" and os = "[2]" and h' = h2 and S = "solar ! 0" and k = Planet
      and nm = "''Mercury''", unfolded L]
  from t have 1: "lookup (System_subAssign solar 0 4) 4 = lookup solar 4" by simp
  from t f h2 have 2: "parent (h2 ! 4) = Some (Ref 1)" by simp
  from t g have 3: "\<exists>h1. Planet_init Planet ''Mercury'' (Ref 0) solar = Some (6, h1)
          \<and> parent (h1 ! 6) = Some (Ref 0)" by blast
  show ?thesis using 1 2 3 h2 by blast
qed

section \<open>Rank of a new body\<close>

lemma parent_chain_bound:
  "parent_chain h r ps t \<Longrightarrow> lookup h t = Some T \<Longrightarrow>
   r < length h \<and> (\<forall>q \<in> set ps. q < length h)"
proof (induction ps arbitrary: r)
  case Nil
  then show ?case by (simp add: lookup_Some)
next
  case (Cons p ps)
  from Cons.prems(1) have r: "r < length h" and ch: "parent_chain h p ps t"
    by (auto simp: lookup_def split: option.splits if_splits)
  from Cons.IH[OF ch Cons.prems(2)] r show ?case by simp
qed

lemma parent_chain_append:
  "parent_chain h r ps t \<Longrightarrow> parent_chain (h @ [x]) r ps t"
proof (induction ps arbitrary: r)
  case Nil
  then show ?case by simp
next
  case (Cons p ps)
  then show ?case
    by (auto simp: lookup_def nth_append split: option.splits if_splits)
qed

lemma assign_returns:
  assumes "lookup h p = Some P"
      and "cls_of P \<in> {Star, BlackHole, Belt, Body, Planet, GiantPlanet, DwarfPlanet}"
      and "orbitals P = Some os" and "bodyRank P = Some rk"
      and "parent ob = Some (Ref p)"
      and "cls_of P \<in> {Star, BlackHole, Belt}
           \<or> (parent_chain h p ps t \<and> lookup h t = Some T
               \<and> (cls_of T = System \<or> parent T = None \<or> parent T = Some PyNone))"
  shows "\<exists>h'. assign_to_parent (h @ [ob]) (length h) = Some h'"
proof -
  let ?h0 = "h @ [ob]" and ?n = "length h"
  have lp: "lookup ?h0 p = Some P" using assms(1) by (rule lookup_append)
  obtain h3 where ad: "adopt ?h0 p ?n = (Done, h3)" and len: "length h3 = length ?h0"
      and cls: "\<forall>r. cls_of (h3 ! r) = cls_of (?h0 ! r)"
      and par: "\<forall>r. r \<noteq> ?n \<longrightarrow> parent (h3 ! r) = parent (?h0 ! r)
             \<and> bodyRank (h3 ! r) = bodyRank (?h0 ! r)"
    using adopt_props[OF lp assms(3,4), of ?n] by auto
  have "\<exists>h'. subAssign ?h0 p ?n = Some h'"
  proof (cases "cls_of P \<in> {Star, BlackHole, Belt}")
    case True
    then have "cls_of P = Star \<or> cls_of P = BlackHole \<or> cls_of P = Belt" by simp
    from subAssign_forwarder[OF lp this ad] show ?thesis by simp
  next
    case False
    then have B: "cls_of P = Body \<or> cls_of P = Planet \<or> cls_of P = GiantPlanet
        \<or> cls_of P = DwarfPlanet" using assms(2) by auto
    from False assms(6) have ch: "parent_chain h p ps t" and T: "lookup h t = Some T"
      and top: "cls_of T = System \<or> parent T = None \<or> parent T = Some PyNone" by auto
    have bound: "p < ?n" "\<forall>q \<in> set ps. q < ?n"
      using parent_chain_bound[OF ch T] by auto
    then have fresh: "?n \<noteq> p" "?n \<notin> set ps" by auto
    have t: "t < ?n" "h ! t = T" using T by (simp_all add: lookup_Some)
    have ch3: "parent_chain h3 p ps t"
      using parent_chain_update[OF len, of ?n] cls par parent_chain_append[OF ch, of ob] fresh
      by blast
    have T3: "lookup h3 t = Some (h3 ! t)" "cls_of (h3 ! t) = cls_of T"
        "parent (h3 ! t) = parent T"
      using t len cls par by (simp_all add: lookup_def nth_append)
    have "\<exists>v. system h3 t = Some (v, h3)"
    proof (cases "cls_of T = System")
      case True
      then show ?thesis using system_System[OF T3(1)] T3(2) by simp
    next
      case False
      then show ?thesis using system_top[OF T3(1)] T3(2,3) top by simp
    qed
    then obtain v where "system h3 p = Some (v, h3)"
      using chain_system[OF ch3] by auto
    with subAssign_Body[OF lp B ad] show ?thesis
      by (cases v) simp_all
  qed
  then show ?thesis using assign_new[OF assms(5), of h] by simp
qed

lemma assign_facts:
  assumes "lookup h p = Some P"
      and "cls_of P \<in> {Star, BlackHole, Belt, Body, Planet, GiantPlanet, DwarfPlanet}"
      and "orbitals P = Some os" and "bodyRank P = Some rk"
      and "parent ob = Some (Ref p)"
      and "assign_to_parent (h @ [ob]) (length h) = Some h'"
  shows "length h' = Suc (length h)" and "bodyRank (h' ! length h) = Some (rk + 1)"
    and "bodyRank (h' ! p) = Some rk" and "parent (h' ! length h) = Some (Ref p)"
    and "cls_of (h' ! p) = cls_of P"
proof -
  let ?h0 = "h @ [ob]" and ?n = "length h"
  have c: "cls_of P \<noteq> System" "cls_of P \<noteq> Minor" using assms(2) by auto
  have p: "p < ?n" "h ! p = P" using assms(1) by (simp_all add: lookup_Some)
  have lp: "lookup ?h0 p = Some P" using assms(1) by (rule lookup_append)
  have sub: "subAssign ?h0 p ?n = Some h'"
    using assms(6) assign_new[OF assms(5), of h] by simp
  from assign_rank[OF assms(1) c assms(3,4,5,6)]
  show "length h' = Suc (length h)" "bodyRank (h' ! length h) = Some (rk + 1)"
    "bodyRank (h' ! p) = Some rk" by simp_all
  show "parent (h' ! length h) = Some (Ref p)"
    using container_sets_parent[OF lp c assms(3) _ sub] by simp
  obtain h3 where ad: "adopt ?h0 p ?n = (Done, h3)"
      and cls: "\<forall>r. cls_of (h3 ! r) = cls_of (?h0 ! r)"
    using adopt_props[OF lp assms(3,4), of ?n] by auto
  from subAssign_after_adopt[OF lp c ad sub] cls p
  show "cls_of (h' ! p) = cls_of P"
    by (auto simp: System_subAssign_fields nth_append)
qed

text \<open>
  Claim C6. Let \<open>P\<close> be a Star, a BlackHole, a Belt, a Body or a planet, with its orbitals
  and a rank \<open>rk\<close>. Whatever is constructed with \<open>P\<close> as parent (a planet, a star, a
  System, a Minor, a Belt) has rank \<open>rk + 1\<close> when its construction has completed, and
  \<open>P\<close> still has rank \<open>rk\<close> (first five parts). And the construction does complete: always
  when \<open>P\<close> is a Star, a BlackHole or a Belt, whose \<^verbatim>\<open>subAssign\<close> looks no further than
  the immediate parent, and for a Body or a planet \<open>P\<close> whenever the walk of
  \<^verbatim>\<open>system()\<close> up from \<open>P\<close> ends, at a System or at a node without parent. Then the
  constructor returns the new reference and a store in which the new body has rank
  \<open>rk + 1\<close>. \<^verbatim>\<open>Belt.__init__\<close> returns normally unless \<open>P\<close> is a plain Body, which has no
  \<^verbatim>\<open>bodyType\<close> for the lines after the \<^verbatim>\<open>try\<close>; the ranks are as stated in that case
  too.
\<close>

theorem child_rank_is_parent_rank_plus_one:
  assumes "lookup h p = Some P"
      and "cls_of P \<in> {Star, BlackHole, Belt, Body, Planet, GiantPlanet, DwarfPlanet}"
      and "orbitals P = Some os" and "bodyRank P = Some rk"
  shows "(\<forall>b h'. Planet_init k nm (Ref p) h = Some (b, h')
            \<longrightarrow> bodyRank (h' ! b) = Some (rk + 1) \<and> bodyRank (h' ! p) = Some rk)
       \<and> (\<forall>b h'. Star_init k' nm (Ref p) h = Some (b, h')
            \<longrightarrow> bodyRank (h' ! b) = Some (rk + 1) \<and> bodyRank (h' ! p) = Some rk)
       \<and> (\<forall>b h'. System_init nm (Ref p) rank h = Some (b, h')
            \<longrightarrow> bodyRank (h' ! b) = Some (rk + 1) \<and> bodyRank (h' ! p) = Some rk)
       \<and> (\<forall>b h'. Minor_init nm (Ref p) h = Some (b, h')
            \<longrightarrow> bodyRank (h' ! b) = Some (rk + 1) \<and> bodyRank (h' ! p) = Some rk)
       \<and> (\<forall>b h'. Belt_init nm (Ref p) rank h = Some (Done, b, h')
            \<longrightarrow> bodyRank (h' ! b) = Some (rk + 1) \<and> bodyRank (h' ! p) = Some rk)
       \<and> (cls_of P \<in> {Star, BlackHole, Belt}
           \<or> (parent_chain h p ps t \<and> lookup h t = Some T
               \<and> (cls_of T = System \<or> parent T = None \<or> parent T = Some PyNone))
          \<longrightarrow> (\<exists>h'. Planet_init k nm (Ref p) h = Some (length h, h')
                 \<and> bodyRank (h' ! length h) = Some (rk + 1) \<and> bodyRank (h' ! p) = Some rk)
          \<and> (\<exists>h'. Star_init k' nm (Ref p) h = Some (length h, h')
                 \<and> bodyRank (h' ! length h) = Some (rk + 1) \<and> bodyRank (h' ! p) = Some rk)
          \<and> (\<exists>h'. System_init nm (Ref p) rank h = Some (length h, h')
                 \<and> bodyRank (h' ! length h) = Some (rk + 1) \<and> bodyRank (h' ! p) = Some rk)
          \<and> (\<exists>h'. Minor_init nm (Ref p) h = Some (length h, h')
                 \<and> bodyRank (h' ! length h) = Some (rk + 1) \<and> bodyRank (h' ! p) = Some rk)
          \<and> (\<exists>st h'. Belt_init nm (Ref p) rank h = Some (st, length h, h')
                 \<and> (st = Done \<longleftrightarrow> cls_of P \<noteq> Body)
                 \<and> bodyRank (h' ! length h) = Some (rk + 1) \<and> bodyRank (h' ! p) = Some rk))"
proof -
  have c: "cls_of P \<noteq> System" "cls_of P \<noteq> Minor" using assms(2) by auto
  note ar = assign_rank[OF assms(1) c assms(3,4)]
  have p: "p < length h" using assms(1) by (simp add: lookup_Some)
  have 1: "\<forall>b h'. Planet_init k nm (Ref p) h = Some (b, h')
            \<longrightarrow> bodyRank (h' ! b) = Some (rk + 1) \<and> bodyRank (h' ! p) = Some rk"
    unfolding Planet_init_def Let_def by (auto dest!: ar[rotated])
  have 2: "\<forall>b h'. Star_init k' nm (Ref p) h = Some (b, h')
            \<longrightarrow> bodyRank (h' ! b) = Some (rk + 1) \<and> bodyRank (h' ! p) = Some rk"
    unfolding Star_init_def Let_def by (auto dest!: ar[rotated])
  have 3: "\<forall>b h'. System_init nm (Ref p) rank h = Some (b, h')
            \<longrightarrow> bodyRank (h' ! b) = Some (rk + 1) \<and> bodyRank (h' ! p) = Some rk"
    unfolding System_init_def Let_def by (auto dest!: ar[rotated])
  have 4: "\<forall>b h'. Minor_init nm (Ref p) h = Some (b, h')
            \<longrightarrow> bodyRank (h' ! b) = Some (rk + 1) \<and> bodyRank (h' ! p) = Some rk"
    unfolding Minor_init_def Let_def by (auto dest!: ar[rotated])
  have 5: "\<forall>b h'. Belt_init nm (Ref p) rank h = Some (Done, b, h')
            \<longrightarrow> bodyRank (h' ! b) = Some (rk + 1) \<and> bodyRank (h' ! p) = Some rk"
  proof (intro allI impI)
    fix b h'
    assume a: "Belt_init nm (Ref p) rank h = Some (Done, b, h')"
    let ?ob = "\<lparr>cls_of = Belt, name = nm, parent = Some (Ref p), bodyRank = Some rank,
                 orbitals = Some [], heads = None, bodies = None, bodySubtype = None\<rparr>"
    from a obtain h1 where h1: "assign_to_parent (h @ [?ob]) (length h) = Some h1"
      by (auto simp: Belt_init_def Let_def Option.bind_eq_Some_conv)
    from a h1 have b: "b = length h"
      and h': "\<exists>t. h' = h1[length h := (h1 ! length h)\<lparr>bodySubtype := t\<rparr>]"
      by (auto simp: Belt_init_def Let_def split: option.splits val.splits)
    have "parent ?ob = Some (Ref p)" by simp
    from ar[OF this h1] h' b show
      "bodyRank (h' ! b) = Some (rk + 1) \<and> bodyRank (h' ! p) = Some rk"
      by (auto simp: nth_list_update)
  qed
  have 6: "(\<exists>h'. Planet_init k nm (Ref p) h = Some (length h, h')
                 \<and> bodyRank (h' ! length h) = Some (rk + 1) \<and> bodyRank (h' ! p) = Some rk)
          \<and> (\<exists>h'. Star_init k' nm (Ref p) h = Some (length h, h')
                 \<and> bodyRank (h' ! length h) = Some (rk + 1) \<and> bodyRank (h' ! p) = Some rk)
          \<and> (\<exists>h'. System_init nm (Ref p) rank h = Some (length h, h')
                 \<and> bodyRank (h' ! length h) = Some (rk + 1) \<and> bodyRank (h' ! p) = Some rk)
          \<and> (\<exists>h'. Minor_init nm (Ref p) h = Some (length h, h')
                 \<and> bodyRank (h' ! length h) = Some (rk + 1) \<and> bodyRank (h' ! p) = Some rk)
          \<and> (\<exists>st h'. Belt_init nm (Ref p) rank h = Some (st, length h, h')
                 \<and> (st = Done \<longleftrightarrow> cls_of P \<noteq> Body)
                 \<and> bodyRank (h' ! length h) = Some (rk + 1) \<and> bodyRank (h' ! p) = Some rk)"
    if tm: "cls_of P \<in> {Star, BlackHole, Belt}
           \<or> (parent_chain h p ps t \<and> lookup h t = Some T
               \<and> (cls_of T = System \<or> parent T = None \<or> parent T = Some PyNone))"
  proof -
    note ret = assign_returns[OF assms _ tm]
    note fa = assign_facts[OF assms]
    have pl: "(\<exists>h'. Planet_init k nm (Ref p) h = Some (length h, h')
                 \<and> bodyRank (h' ! length h) = Some (rk + 1) \<and> bodyRank (h' ! p) = Some rk)"
    proof -
      let ?ob = "\<lparr>cls_of = k, name = nm, parent = Some (Ref p), bodyRank = Some 3,
                   orbitals = Some [], heads = None, bodies = None, bodySubtype = None\<rparr>"
      have po: "parent ?ob = Some (Ref p)" by simp
      from ret[OF po] obtain h1 where h1: "assign_to_parent (h @ [?ob]) (length h) = Some h1" ..
      from h1 fa(2,3)[OF po h1] show ?thesis by (simp add: Planet_init_def Let_def)
    qed
    have st: "(\<exists>h'. Star_init k' nm (Ref p) h = Some (length h, h')
                 \<and> bodyRank (h' ! length h) = Some (rk + 1) \<and> bodyRank (h' ! p) = Some rk)"
    proof -
      let ?ob = "\<lparr>cls_of = k', name = nm, parent = Some (Ref p), bodyRank = Some 2,
                   orbitals = Some [], heads = None, bodies = None, bodySubtype = None\<rparr>"
      have po: "parent ?ob = Some (Ref p)" by simp
      from ret[OF po] obtain h1 where h1: "assign_to_parent (h @ [?ob]) (length h) = Some h1" ..
      from h1 fa(2,3)[OF po h1] show ?thesis by (simp add: Star_init_def Let_def)
    qed
    have sy: "(\<exists>h'. System_init nm (Ref p) rank h = Some (length h, h')
                 \<and> bodyRank (h' ! length h) = Some (rk + 1) \<and> bodyRank (h' ! p) = Some rk)"
    proof -
      let ?ob = "\<lparr>cls_of = System, name = nm, parent = Some (Ref p), bodyRank = Some rank,
                   orbitals = None, heads = Some [], bodies = Some [], bodySubtype = None\<rparr>"
      have po: "parent ?ob = Some (Ref p)" by simp
      from ret[OF po] obtain h1 where h1: "assign_to_parent (h @ [?ob]) (length h) = Some h1" ..
      from h1 fa(2,3)[OF po h1] show ?thesis by (simp add: System_init_def Let_def)
    qed
    have m: "(\<exists>h'. Minor_init nm (Ref p) h = Some (length h, h')
                 \<and> bodyRank (h' ! length h) = Some (rk + 1) \<and> bodyRank (h' ! p) = Some rk)"
    proof -
      let ?ob = "\<lparr>cls_of = Minor, name = nm, parent = Some (Ref p), bodyRank = Some 4,
                   orbitals = None, heads = None, bodies = None, bodySubtype = None\<rparr>"
      have po: "parent ?ob = Some (Ref p)" by simp
      from ret[OF po] obtain h1 where h1: "assign_to_parent (h @ [?ob]) (length h) = Some h1" ..
      from h1 fa(2,3)[OF po h1] show ?thesis by (simp add: Minor_init_def Let_def)
    qed
    have b: "\<exists>st h'. Belt_init nm (Ref p) rank h = Some (st, length h, h')
                 \<and> (st = Done \<longleftrightarrow> cls_of P \<noteq> Body)
                 \<and> bodyRank (h' ! length h) = Some (rk + 1) \<and> bodyRank (h' ! p) = Some rk"
    proof -
      let ?ob = "\<lparr>cls_of = Belt, name = nm, parent = Some (Ref p), bodyRank = Some rank,
                   orbitals = Some [], heads = None, bodies = None, bodySubtype = None\<rparr>"
      have po: "parent ?ob = Some (Ref p)" by simp
      from ret[OF po] obtain h1 where h1: "assign_to_parent (h @ [?ob]) (length h) = Some h1" ..
      note f = fa[OF po h1]
      have lk: "lookup h1 (length h) = Some (h1 ! length h)" "lookup h1 p = Some (h1 ! p)"
        using f(1) p by (simp_all add: lookup_def)
      have bt: "bodyType (cls_of P) = None \<longleftrightarrow> cls_of P = Body"
        using assms(2) by auto
      show ?thesis
      proof (cases "cls_of P = Body")
        case True
        then have "Belt_init nm (Ref p) rank h = Some (AttributeError, length h, h1)"
          using h1 lk f(4,5) by (simp add: Belt_init_def Let_def)
        then show ?thesis using f(2,3) True by simp
      next
        case False
        then obtain ty where ty: "bodyType (cls_of P) = Some ty" using bt by auto
        then have "Belt_init nm (Ref p) rank h = Some (Done, length h,
            h1[length h := (h1 ! length h)\<lparr>bodySubtype :=
                Some (if ty = ''Star'' then ''Belt''
                      else if ty = ''Planet'' then ''Ring'' else ''Cloud'')\<rparr>])"
          using h1 lk f(4,5) by (simp add: Belt_init_def Let_def)
        then show ?thesis using f(1,2,3) False p by (simp add: nth_list_update)
      qed
    qed
    show ?thesis using pl st sy m b by blast
  qed
  show ?thesis using 1 2 3 4 5 6 by blast
qed

text \<open>
  In \<open>solar\<close>, all five constructors: a planet and a Belt under the Sun (a Star of rank
  2) get rank 3, the Belt in spite of its \<^verbatim>\<open>rank=7\<close>; a star and a System under the
  Earth (a planet of rank 3, two links below Sol) get rank 4; a Minor under the rogue
  planet (rank 3, no parent) gets rank 4.
\<close>

theorem child_rank_witness:
  "(\<exists>h'. Planet_init Planet ''Mars'' (Ref 1) solar = Some (6, h')
        \<and> bodyRank (h' ! 6) = Some 3 \<and> bodyRank (h' ! 1) = Some 2)
   \<and> (\<exists>h'. Star_init Star ''Companion'' (Ref 2) solar = Some (6, h')
        \<and> bodyRank (h' ! 6) = Some 4 \<and> bodyRank (h' ! 2) = Some 3)
   \<and> (\<exists>h'. System_init ''Sub'' (Ref 2) 2 solar = Some (6, h')
        \<and> bodyRank (h' ! 6) = Some 4 \<and> bodyRank (h' ! 2) = Some 3)
   \<and> (\<exists>h'. Minor_init ''Apophis'' (Ref 4) solar = Some (6, h')
        \<and> bodyRank (h' ! 6) = Some 4 \<and> bodyRank (h' ! 4) = Some 3)
   \<and> (\<exists>h'. Belt_init ''Main Belt'' (Ref 1) 7 solar = Some (Done, 6, h')
        \<and> bodyRank (h' ! 6) = Some 3 \<and> bodyRank (h' ! 1) = Some 2)"
proof -
  have L: "length solar = 6" by (simp add: solar_def)
  have sun: "lookup solar 1 = Some (solar ! 1)"
      "cls_of (solar ! 1) \<in> {Star, BlackHole, Belt, Body, Planet, GiantPlanet, DwarfPlanet}"
      "orbitals (solar ! 1) = Some [2]" "bodyRank (solar ! 1) = Some 2"
    by (simp_all add: solar_def lookup_def)
  have sun': "cls_of (solar ! 1) \<in> {Star, BlackHole, Belt}
      \<or> (parent_chain solar 1 [] 1 \<and> lookup solar 1 = Some (solar ! 1)
          \<and> (cls_of (solar ! 1) = System \<or> parent (solar ! 1) = None
              \<or> parent (solar ! 1) = Some PyNone))"
    by (simp add: solar_def)
  have sun'': "cls_of (solar ! 1) \<noteq> Body" by (simp add: solar_def)
  have earth: "lookup solar 2 = Some (solar ! 2)"
      "cls_of (solar ! 2) \<in> {Star, BlackHole, Belt, Body, Planet, GiantPlanet, DwarfPlanet}"
      "orbitals (solar ! 2) = Some [3]" "bodyRank (solar ! 2) = Some 3"
    by (simp_all add: solar_def lookup_def)
  have earth': "cls_of (solar ! 2) \<in> {Star, BlackHole, Belt}
      \<or> (parent_chain solar 2 [1, 0] 0 \<and> lookup solar 0 = Some (solar ! 0)
          \<and> (cls_of (solar ! 0) = System \<or> parent (solar ! 0) = None
              \<or> parent (solar ! 0) = Some PyNone))"
    by (simp add: solar_def lookup_def)
  have rogue: "lookup solar 4 = Some (solar ! 4)"
      "cls_of (solar ! 4) \<in> {Star, BlackHole, Belt, Body, Planet, GiantPlanet, DwarfPlanet}"
      "orbitals (solar ! 4) = Some [5]" "bodyRank (solar ! 4) = Some 3"
    by (simp_all add: solar_def lookup_def)
  have rogue': "cls_of (solar ! 4) \<in> {Star, BlackHole, Belt}
      \<or> (parent_chain solar 4 [] 4 \<and> lookup solar 4 = Some (solar ! 4)
          \<and> (cls_of (solar ! 4) = System \<or> parent (solar ! 4) = None
              \<or> parent (solar ! 4) = Some PyNone))"
    by (simp add: solar_def lookup_def)
  note a = child_rank_is_parent_rank_plus_one[OF sun, where k = Planet and nm = "''Mars''"
      and ps = "[]" and t = 1 and T = "solar ! 1", unfolded L, THEN conjunct2, THEN conjunct2,
      THEN conjunct2, THEN conjunct2, THEN conjunct2, THEN mp, OF sun']
  note b = child_rank_is_parent_rank_plus_one[OF sun, where nm = "''Main Belt''" and rank = 7
      and ps = "[]" and t = 1 and T = "solar ! 1", unfolded L, THEN conjunct2, THEN conjunct2,
      THEN conjunct2, THEN conjunct2, THEN conjunct2, THEN mp, OF sun']
  note c = child_rank_is_parent_rank_plus_one[OF earth, where k' = Star
      and nm = "''Companion''" and ps = "[1, 0]" and t = 0 and T = "solar ! 0",
      unfolded L, THEN conjunct2, THEN conjunct2,
      THEN conjunct2, THEN conjunct2, THEN conjunct2, THEN mp, OF earth']
  note d = child_rank_is_parent_rank_plus_one[OF earth, where nm = "''Sub''" and rank = 2
      and ps = "[1, 0]" and t = 0 and T = "solar ! 0",
      unfolded L, THEN conjunct2, THEN conjunct2,
      THEN conjunct2, THEN conjunct2, THEN conjunct2, THEN mp, OF earth']
  note e = child_rank_is_parent_rank_plus_one[OF rogue, where nm = "''Apophis''"
      and ps = "[]" and t = 4 and T = "solar ! 4",
      unfolded L, THEN conjunct2, THEN conjunct2,
      THEN conjunct2, THEN conjunct2, THEN conjunct2, THEN mp, OF rogue']
  have 1: "\<exists>h'. Planet_init Planet ''Mars'' (Ref 1) solar = Some (6, h')
        \<and> bodyRank (h' ! 6) = Some 3 \<and> bodyRank (h' ! 1) = Some 2"
    using a by simp
  have 2: "\<exists>h'. Star_init Star ''Companion'' (Ref 2) solar = Some (6, h')
        \<and> bodyRank (h' ! 6) = Some 4 \<and> bodyRank (h' ! 2) = Some 3"
    using c by simp
  have 3: "\<exists>h'. System_init ''Sub'' (Ref 2) 2 solar = Some (6, h')
        \<and> bodyRank (h' ! 6) = Some 4 \<and> bodyRank (h' ! 2) = Some 3"
    using d by simp
  have 4: "\<exists>h'. Minor_init ''Apophis'' (Ref 4) solar = Some (6, h')
        \<and> bodyRank (h' ! 6) = Some 4 \<and> bodyRank (h' ! 4) = Some 3"
    using e by simp
  have 5: "\<exists>h'. Belt_init ''Main Belt'' (Ref 1) 7 solar = Some (Done, 6, h')
        \<and> bodyRank (h' ! 6) = Some 3 \<and> bodyRank (h' ! 1) = Some 2"
    using b sun'' by auto
  show ?thesis using 1 2 3 4 5 by blast
qed

end
